theory Spec2Isabelle
  imports Main "HOL-Library.Multiset"
begin

section \<open>Python values used by prettymaps\_bot.py\<close>

text \<open>
  A Python \<open>str\<close> is a sequence of Unicode code points and \<open>len\<close> counts code points,
  so a string is modelled as a list of code points. \<open>lit\<close> embeds an ASCII literal of
  the source.
\<close>

type_synonym pystr = "nat list"

definition lit :: "string \<Rightarrow> pystr" where
  "lit s = map of_char s"

text \<open>The exceptions that end a run. \<open>exit(1)\<close> raises \<open>SystemExit 1\<close>.\<close>

datatype exn =
    SystemExit int
  | KeyError
  | IndexError
  | ValueError
  | AssertionError
  | RecursionError
  | FileNotFoundError
  | OSError
  | RequestError
  | MastodonError
  | RenderError

text \<open>\<open>d.get(k, dflt)\<close> on a dict.\<close>

definition dict_get :: "('k \<rightharpoonup> 'v) \<Rightarrow> 'k \<Rightarrow> 'v \<Rightarrow> 'v" where
  "dict_get d k dflt = (case d k of Some v \<Rightarrow> v | None \<Rightarrow> dflt)"

text \<open>The slice \<open>xs[:k]\<close>: a negative \<open>k\<close> counts from the end.\<close>

definition slice_to :: "'a list \<Rightarrow> int \<Rightarrow> 'a list" where
  "slice_to xs k =
     (if 0 \<le> k then take (nat k) xs else take (nat (int (length xs) + k)) xs)"

text \<open>
  Indexing \<open>xs[i]\<close>. Python accepts \<open>-len(xs) \<le> i < len(xs)\<close>, reading from the
  end for a negative \<open>i\<close>, and raises IndexError for any other \<open>i\<close>.
\<close>

definition py_nth :: "'a list \<Rightarrow> int \<Rightarrow> exn + 'a" where
  "py_nth xs i =
     (if 0 \<le> i \<and> i < int (length xs) then Inr (xs ! nat i)
      else if i < 0 \<and> - int (length xs) \<le> i then Inr (xs ! nat (int (length xs) + i))
      else Inl IndexError)"

text \<open>
  \<open>str.upper()\<close> maps each code point on its own. On ASCII it maps \<open>a..z\<close> to
  \<open>A..Z\<close> and leaves the rest; beyond ASCII the Unicode table decides (one code point
  can become several), and that table \<open>tbl\<close> is a parameter.
\<close>

definition upper_char :: "(nat \<Rightarrow> pystr) \<Rightarrow> nat \<Rightarrow> pystr" where
  "upper_char tbl c =
     (if c < 128 then (if 97 \<le> c \<and> c \<le> 122 then [c - 32] else [c]) else tbl c)"

definition upper :: "(nat \<Rightarrow> pystr) \<Rightarrow> pystr \<Rightarrow> pystr" where
  "upper tbl s = concat (map (upper_char tbl) s)"

section \<open>The poll-option formatter\<close>

definition MAX_POLL_OPTION_LENGTH :: int where
  "MAX_POLL_OPTION_LENGTH = 50"

text \<open>
  \<open>create_poll_option\<close> (lines 128-136). The address is the mapping Nominatim returns,
  from field names to strings; an f-string inserts a string as it is.
\<close>

definition create_poll_option :: "pystr \<Rightarrow> (pystr \<rightharpoonup> pystr) \<Rightarrow> int \<Rightarrow> pystr" where
  "create_poll_option name address max_length =
     (let city = dict_get address (lit ''municipality'')
                   (dict_get address (lit ''town'') (lit ''somewhere''));
          region = dict_get address (lit ''state'')
                     (dict_get address (lit ''region'') (lit ''somewhere''));
          opt = name @ lit '', '' @ city @ lit '', '' @ region
      in if int (length opt) \<le> max_length then opt
         else slice_to opt (max_length - 2) @ lit ''..'')"

text \<open>
  The specification's wording of the two fallbacks (section 4.6 with 4.5), written
  out as case distinctions, to compare with the code.
\<close>

definition spec_city :: "(pystr \<rightharpoonup> pystr) \<Rightarrow> pystr" where
  "spec_city address =
     (if address (lit ''municipality'') \<noteq> None then the (address (lit ''municipality''))
      else if address (lit ''town'') \<noteq> None then the (address (lit ''town''))
      else lit ''somewhere'')"

definition spec_region :: "(pystr \<rightharpoonup> pystr) \<Rightarrow> pystr" where
  "spec_region address =
     (if address (lit ''state'') \<noteq> None then the (address (lit ''state''))
      else if address (lit ''region'') \<noteq> None then the (address (lit ''region''))
      else lit ''somewhere'')"

definition spec_built :: "pystr \<Rightarrow> (pystr \<rightharpoonup> pystr) \<Rightarrow> pystr" where
  "spec_built name address =
     name @ lit '', '' @ spec_city address @ lit '', '' @ spec_region address"

section \<open>Data of a run\<close>

text \<open>
  Coordinates are Python floats. No arithmetic on them happens in the script, so
  their type is the parameter \<open>'r\<close>. A shapely geometry is used through its
  \<open>bounds\<close> and its \<open>contains\<close> test only.
\<close>

record 'r polygon =
  bounds :: "'r \<times> 'r \<times> 'r \<times> 'r"
  contains :: "'r \<times> 'r \<Rightarrow> bool"

text \<open>A feature of \<open>world_countries.geojson\<close> and the parsed file.\<close>

record 'r country =
  ADMIN :: pystr
  geometry :: "'r polygon"

record 'r geojson =
  gtype :: pystr
  features :: "'r country list"

text \<open>A feature of the OpenTripMap answer and one of the Nominatim answer.\<close>

record 'r place =
  place_name :: pystr
  geom_type :: pystr
  coordinates :: "'r \<times> 'r"

record nominatim_feature =
  display_name :: pystr
  address_of :: "pystr \<rightharpoonup> pystr"

text \<open>The arguments of \<open>status_post\<close> and what it returns.\<close>

record poll =
  options :: "pystr list"
  expires_in :: int
  multiple :: bool
  hide_totals :: bool

record toot =
  status :: pystr
  media_ids :: "nat list"
  in_reply_to_id :: "nat option"
  toot_poll :: "poll option"
  spoiler_text :: "pystr option"
  scheduled_hours :: "int option"
  visibility :: pystr

record posted =
  toot_id :: nat
  acct :: pystr

text \<open>
  The parsed command line. Each numeric field holds what \<open>int(args.x)\<close> yields, with
  \<open>None\<close> where \<open>int\<close> raises ValueError (the value is a string like \<open>abc\<close>).
\<close>

record args =
  arg_country :: pystr
  arg_nb_picks :: "int option"
  arg_preset :: pystr
  arg_radius :: "int option"
  arg_hours :: "int option"
  arg_verbose :: bool

text \<open>
  What a run does to the outside, in order. An event is recorded when the call is
  made; the flag of a post tells whether the call returned.
\<close>

datatype 'r event =
    LogError pystr
  | FileOpen pystr
  | PlacesGet "'r \<times> 'r" int int int
  | ReverseGet "'r \<times> 'r"
  | Plot pystr pystr pystr
  | MediaPost pystr bool
  | StatusPost toot bool
  | FileRemove pystr

text \<open>
  Everything a run reads from outside: the environment, the dataset file, the random
  generator (the \<open>k\<close>-th draw of a run), the answers of the three services and of the
  renderer, the clock, the files on disk at the start and the interpreter's
  recursion limit.
\<close>

record 'r world =
  environ :: "pystr \<rightharpoonup> pystr"
  recursion_limit :: nat
  unicode_upper :: "nat \<Rightarrow> pystr"
  rand_below :: "nat \<Rightarrow> nat"
  rand_uniform :: "nat \<Rightarrow> 'r \<Rightarrow> 'r \<Rightarrow> 'r"
  countries_file :: "exn + 'r geojson"
  places_api :: "nat \<Rightarrow> 'r \<times> 'r \<Rightarrow> int \<Rightarrow> exn + int \<times> 'r place list"
  reverse_api :: "nat \<Rightarrow> 'r \<times> 'r \<Rightarrow> exn + nominatim_feature list"
  presets :: "pystr list"
  now_stamp :: pystr
  plot :: "pystr \<Rightarrow> pystr \<Rightarrow> pystr \<Rightarrow> exn option"
  media_post :: "pystr \<Rightarrow> exn + nat"
  status_post :: "toot \<Rightarrow> exn + posted"
  disk :: "pystr set"

text \<open>The state a run threads through: what it did, how many draws it made, the disk.\<close>

record 'r st =
  trace :: "'r event list"
  rng_pos :: nat
  files :: "pystr set"

section \<open>Sequencing with exceptions\<close>

type_synonym ('r, 'a) prog = "'r st \<Rightarrow> (exn + 'a) \<times> 'r st"

definition ret :: "'a \<Rightarrow> ('r, 'a) prog" where
  "ret x s = (Inr x, s)"

definition raise :: "exn \<Rightarrow> ('r, 'a) prog" where
  "raise e s = (Inl e, s)"

definition lift :: "exn + 'a \<Rightarrow> ('r, 'a) prog" where
  "lift v s = (v, s)"

definition bind :: "('r, 'a) prog \<Rightarrow> ('a \<Rightarrow> ('r, 'b) prog) \<Rightarrow> ('r, 'b) prog" where
  "bind m f s = (case m s of (Inl e, s1) \<Rightarrow> (Inl e, s1) | (Inr x, s1) \<Rightarrow> f x s1)"

definition emit :: "'r event \<Rightarrow> ('r, unit) prog" where
  "emit ev s = (Inr (), s\<lparr>trace := trace s @ [ev]\<rparr>)"

text \<open>A list comprehension whose element expression has effects.\<close>

fun for_each :: "('a \<Rightarrow> ('r, 'b) prog) \<Rightarrow> 'a list \<Rightarrow> ('r, 'b list) prog" where
  "for_each f [] s = (Inr [], s)"
| "for_each f (x # xs) s =
     (case f x s of
        (Inl e, s1) \<Rightarrow> (Inl e, s1)
      | (Inr y, s1) \<Rightarrow>
          (case for_each f xs s1 of
             (Inl e, s2) \<Rightarrow> (Inl e, s2)
           | (Inr ys, s2) \<Rightarrow> (Inr (y # ys), s2)))"

section \<open>The random module\<close>

text \<open>
  \<open>_randbelow(n)\<close> returns a number below \<open>n\<close>: the \<open>k\<close>-th draw of the run reduced
  modulo \<open>n\<close>. \<open>random.choice\<close> raises IndexError on an empty sequence and otherwise
  returns \<open>seq[_randbelow(len(seq))]\<close>; \<open>random.randint(a, b)\<close> is
  \<open>a + _randbelow(b - a + 1)\<close> and raises ValueError on an empty range.
\<close>

definition random_choice :: "'r world \<Rightarrow> 'a list \<Rightarrow> ('r, 'a) prog" where
  "random_choice w seq s =
     (if seq = [] then (Inl IndexError, s)
      else (Inr (seq ! (rand_below w (rng_pos s) mod length seq)),
            s\<lparr>rng_pos := Suc (rng_pos s)\<rparr>))"

definition random_randint :: "'r world \<Rightarrow> int \<Rightarrow> int \<Rightarrow> ('r, int) prog" where
  "random_randint w a b s =
     (if b < a then (Inl ValueError, s)
      else (Inr (a + int (rand_below w (rng_pos s) mod nat (b - a + 1))),
            s\<lparr>rng_pos := Suc (rng_pos s)\<rparr>))"

text \<open>
  \<open>random.sample(population, k)\<close> as CPython computes it from a copy \<open>pool\<close> of the
  population: for \<open>i\<close> in \<open>range(k)\<close> it draws \<open>j = _randbelow(n - i)\<close>, takes
  \<open>pool[j]\<close> as the \<open>i\<close>-th result and moves \<open>pool[n - i - 1]\<close> into the vacancy.
  (CPython switches to a set of chosen indices only when \<open>n\<close> is above a bound that
  is at least 21 and, for \<open>k > 5\<close>, more than \<open>3 * k\<close>: never for \<open>k = n\<close>, the
  only use in the script.)
  In \<open>sample_loop\<close>, \<open>m\<close> is \<open>n - i\<close> and the third number counts the rounds left.
\<close>

fun sample_loop :: "'r world \<Rightarrow> 'a list \<Rightarrow> nat \<Rightarrow> nat \<Rightarrow> nat \<Rightarrow> 'a list" where
  "sample_loop w pool m 0 pos = []"
| "sample_loop w pool m (Suc rounds) pos =
     (let j = rand_below w pos mod m
      in pool ! j # sample_loop w (pool[j := pool ! (m - 1)]) (m - 1) rounds (Suc pos))"

definition random_sample :: "'r world \<Rightarrow> 'a list \<Rightarrow> nat \<Rightarrow> ('r, 'a list) prog" where
  "random_sample w population k s =
     (if length population < k then (Inl ValueError, s)
      else (Inr (sample_loop w population (length population) k (rng_pos s)),
            s\<lparr>rng_pos := rng_pos s + k\<rparr>))"

section \<open>Country selector and point sampler\<close>

text \<open>
  \<open>pick_country\<close> (lines 64-71). The dict comprehension keeps, for a key present
  twice, the feature that comes last.
\<close>

definition pick_country :: "'r world \<Rightarrow> pystr \<Rightarrow> ('r, 'r country) prog" where
  "pick_country w country =
     bind (emit (FileOpen (lit ''world_countries.geojson''))) (\<lambda>_.
     bind (lift (countries_file w)) (\<lambda>geojson.
       if gtype geojson \<noteq> lit ''FeatureCollection'' then raise AssertionError
       else if country = lit ''random'' then random_choice w (features geojson)
       else
         let countries = foldl (\<lambda>d c. d(upper (unicode_upper w) (ADMIN c) \<mapsto> c))
                           Map.empty (features geojson)
         in (case countries (upper (unicode_upper w) country) of
               None \<Rightarrow> raise KeyError
             | Some c \<Rightarrow> ret c)))"

text \<open>
  \<open>generate_random_point\<close> (lines 74-79). The function calls itself until a point
  is accepted; \<open>depth\<close> is the number of calls the interpreter still allows before it
  raises RecursionError.
\<close>

fun generate_random_point :: "'r world \<Rightarrow> nat \<Rightarrow> 'r polygon \<Rightarrow> ('r, 'r \<times> 'r) prog" where
  "generate_random_point w 0 polygon s = (Inl RecursionError, s)"
| "generate_random_point w (Suc depth) polygon s =
     (case bounds polygon of (minx, miny, maxx, maxy) \<Rightarrow>
        let point = (rand_uniform w (rng_pos s) minx maxx,
                     rand_uniform w (Suc (rng_pos s)) miny maxy);
            s1 = s\<lparr>rng_pos := rng_pos s + 2\<rparr>
        in if contains polygon point then (Inr point, s1)
           else generate_random_point w depth polygon s1)"

text \<open>The point of the \<open>k\<close>-th attempt of the sampler started in state \<open>s\<close>.\<close>

definition drawn_point :: "'r world \<Rightarrow> 'r polygon \<Rightarrow> 'r st \<Rightarrow> nat \<Rightarrow> 'r \<times> 'r" where
  "drawn_point w polygon s k =
     (case bounds polygon of (minx, miny, maxx, maxy) \<Rightarrow>
        (rand_uniform w (rng_pos s + 2 * k) minx maxx,
         rand_uniform w (Suc (rng_pos s + 2 * k)) miny maxy))"

section \<open>Configuration check\<close>

text \<open>
  The checks at module level (lines 29-37), run before anything else of the script.
  Only error logs are recorded in the trace; info and debug logs go to standard
  output and change nothing else.
\<close>

definition check_environment :: "'r world \<Rightarrow> ('r, unit) prog" where
  "check_environment w =
     (if environ w (lit ''MASTODON_INSTANCE'') = None then
        bind (emit (LogError (lit ''Error: MASTODON_INSTANCE environment variable not set'')))
          (\<lambda>_. raise (SystemExit 1))
      else if environ w (lit ''MASTODON_ACCESS_TOKEN'') = None then
        bind (emit (LogError (lit ''Error: MASTODON_ACCESS_TOKEN environment variable not set'')))
          (\<lambda>_. raise (SystemExit 1))
      else if environ w (lit ''OPENTRIPMAP_API_KEY'') = None then
        bind (emit (LogError (lit ''Error: OPENTRIPMAP_API_KEY environment variable not set'')))
          (\<lambda>_. raise (SystemExit 1))
      else ret ())"

section \<open>Place finder, address resolver, renderer\<close>

text \<open>
  \<open>get_otm_place\<close> (lines 82-114): a point is sampled, the places API is asked, a
  status other than 200 fails the assertion, an empty answer makes the function call
  itself again, and one feature of a non-empty answer is chosen.
\<close>

fun get_otm_place ::
  "'r world \<Rightarrow> nat \<Rightarrow> 'r polygon \<Rightarrow> int \<Rightarrow> int \<Rightarrow> int \<Rightarrow> ('r, 'r place) prog" where
  "get_otm_place w 0 polygon radius_km rate limit s = (Inl RecursionError, s)"
| "get_otm_place w (Suc depth) polygon radius_km rate limit s =
     (case generate_random_point w depth polygon s of
        (Inl e, s1) \<Rightarrow> (Inl e, s1)
      | (Inr rnd_point, s1) \<Rightarrow>
          let s2 = s1\<lparr>trace := trace s1 @ [PlacesGet rnd_point (radius_km * 1000) rate limit]\<rparr>
          in (case places_api w (length (trace s1)) rnd_point (radius_km * 1000) of
                Inl e \<Rightarrow> (Inl e, s2)
              | Inr (status_code, feats) \<Rightarrow>
                  if status_code \<noteq> 200 then (Inl AssertionError, s2)
                  else if feats = [] then get_otm_place w depth polygon radius_km rate limit s2
                  else (case random_choice w feats s2 of
                          (Inl e, s3) \<Rightarrow> (Inl e, s3)
                        | (Inr feature, s3) \<Rightarrow>
                            if geom_type feature \<noteq> lit ''Point'' then (Inl AssertionError, s3)
                            else (Inr feature, s3))))"

text \<open>\<open>get_nominatim_address\<close> (lines 117-125).\<close>

definition get_nominatim_address ::
  "'r world \<Rightarrow> 'r place \<Rightarrow> ('r, pystr \<times> (pystr \<rightharpoonup> pystr)) prog" where
  "get_nominatim_address w feature s =
     (let point = coordinates feature;
          s1 = s\<lparr>trace := trace s @ [ReverseGet point]\<rparr>
      in case reverse_api w (length (trace s)) point of
           Inl e \<Rightarrow> (Inl e, s1)
         | Inr feats \<Rightarrow>
             (case feats of
                [nmntm_feat] \<Rightarrow> (Inr (display_name nmntm_feat, address_of nmntm_feat), s1)
              | _ \<Rightarrow> (Inl AssertionError, s1)))"

text \<open>
  \<open>generate_prettymaps_image\<close> (lines 139-142). When \<open>prettymaps.plot\<close> returns, the
  file \<open>save_as\<close> is on disk.
\<close>

definition generate_prettymaps_image :: "'r world \<Rightarrow> pystr \<Rightarrow> pystr \<Rightarrow> ('r, pystr) prog" where
  "generate_prettymaps_image w address preset s =
     (let path = lit ''prettymaps_'' @ now_stamp w @ lit ''_'' @ preset @ lit ''.png'';
          s1 = s\<lparr>trace := trace s @ [Plot address preset path]\<rparr>
      in case plot w address preset path of
           Some e \<Rightarrow> (Inl e, s1)
         | None \<Rightarrow> (Inr path, s1\<lparr>files := insert path (files s1)\<rparr>))"

section \<open>The main program\<close>

definition IMG_TOOT_TEMPLATE :: "pystr \<Rightarrow> pystr" where
  "IMG_TOOT_TEMPLATE country_name =
     [240, 376, 8212, 186] @ lit '' Which place is this ?'' @ [10, 10, 240, 376, 8220]
     @ lit '' Clue: this place is in '' @ country_name
     @ [10, 10, 240, 376, 8216, 8225]
     @ lit '' You can answer in the poll which is in the first reply ''
     @ [240, 376, 8216, 8225, 10, 10] @ lit ''#prettymaps''"

definition POLL_TOOT_TPL :: pystr where
  "POLL_TOOT_TPL = lit ''Which place is this ?''"

definition ANSWER_TOOT_TPL :: "pystr \<Rightarrow> pystr" where
  "ANSWER_TOOT_TPL answer = lit ''The correct answer is : '' @ answer"

definition ANSWER_TOOT_CW_TPL :: pystr where
  "ANSWER_TOOT_CW_TPL = [226, 339, 8230] @ lit '' Correct answer''"

text \<open>\<open>int(x)\<close> on a command-line value, \<open>os.remove\<close>, and the two Mastodon calls.\<close>

definition py_int :: "int option \<Rightarrow> ('r, int) prog" where
  "py_int v = (case v of None \<Rightarrow> raise ValueError | Some n \<Rightarrow> ret n)"

definition os_remove :: "pystr \<Rightarrow> ('r, unit) prog" where
  "os_remove path s =
     (let s1 = s\<lparr>trace := trace s @ [FileRemove path]\<rparr>
      in if path \<in> files s then (Inr (), s1\<lparr>files := files s - {path}\<rparr>)
         else (Inl FileNotFoundError, s1))"

definition mastodon_media_post :: "'r world \<Rightarrow> pystr \<Rightarrow> ('r, nat) prog" where
  "mastodon_media_post w path s =
     (case media_post w path of
        Inl e \<Rightarrow> (Inl e, s\<lparr>trace := trace s @ [MediaPost path False]\<rparr>)
      | Inr m \<Rightarrow> (Inr m, s\<lparr>trace := trace s @ [MediaPost path True]\<rparr>))"

definition mastodon_status_post :: "'r world \<Rightarrow> toot \<Rightarrow> ('r, posted) prog" where
  "mastodon_status_post w t s =
     (case status_post w t of
        Inl e \<Rightarrow> (Inl e, s\<lparr>trace := trace s @ [StatusPost t False]\<rparr>)
      | Inr p \<Rightarrow> (Inr p, s\<lparr>trace := trace s @ [StatusPost t True]\<rparr>))"

text \<open>What lines 188-227 of the main block hand over to the publishing lines.\<close>

record 'r plan =
  country_name :: pystr
  otm_places :: "'r place list"
  otm_names :: "pystr list"
  names :: "pystr list"
  addresses :: "(pystr \<rightharpoonup> pystr) list"
  poll_options :: "pystr list"
  idx_pick :: int
  map_path :: pystr
  nb_hours :: int

text \<open>
  Lines 188-227: the three conversions, the check of \<open>nb_picks\<close>, the country, the
  picks with their addresses and poll options, the correct pick, the preset and the
  image. \<open>zip(*...)\<close> splits the pairs of the address resolver into two tuples.
\<close>

definition prepare :: "'r world \<Rightarrow> args \<Rightarrow> ('r, 'r plan) prog" where
  "prepare w a =
     bind (py_int (arg_nb_picks a)) (\<lambda>nb_picks.
     bind (py_int (arg_radius a)) (\<lambda>radius_km.
     bind (py_int (arg_hours a)) (\<lambda>hours.
     if nb_picks < 2 \<or> nb_picks > 4 then
       bind (emit (LogError (lit ''Number of picks must be between 2 and 4'')))
         (\<lambda>_. raise (SystemExit 1))
     else
     bind (pick_country w (arg_country a)) (\<lambda>country.
     bind (for_each (\<lambda>_. get_otm_place w (recursion_limit w) (geometry country) radius_km 3 50)
             [0..nb_picks - 1]) (\<lambda>places.
     bind (for_each (get_nominatim_address w) places) (\<lambda>resolved.
     bind (for_each
             (\<lambda>i. bind (lift (py_nth (map place_name places) (i - 1))) (\<lambda>n.
                  bind (lift (py_nth (map snd resolved) (i - 1))) (\<lambda>adr.
                  ret (create_poll_option n adr MAX_POLL_OPTION_LENGTH))))
             [1..nb_picks]) (\<lambda>opts.
     bind (random_randint w 1 nb_picks) (\<lambda>r.
     bind (lift (py_nth places (r - 1))) (\<lambda>place.
     bind (lift (py_nth (map place_name places) (r - 1))) (\<lambda>correct_name.
     bind (if arg_preset a = lit ''random'' then random_choice w (presets w)
           else ret (arg_preset a)) (\<lambda>preset.
     bind (lift (py_nth (map fst resolved) (r - 1))) (\<lambda>query.
     bind (generate_prettymaps_image w query preset) (\<lambda>path.
     ret \<lparr>country_name = ADMIN country, otm_places = places,
          otm_names = map place_name places, names = map fst resolved,
          addresses = map snd resolved, poll_options = opts, idx_pick = r - 1,
          map_path = path, nb_hours = hours\<rparr>)))))))))))))"

text \<open>
  Lines 229-275. First the keyword arguments of the three \<open>status_post\<close> calls (the
  templates of the poll and of the answer are filled by \<open>format\<close>, which ignores
  the arguments a template does not name), then the calls in their order: the
  media upload and the image post, the removal of the image file, the poll post
  with the sampled options, the answer post.
\<close>

definition image_toot :: "'r plan \<Rightarrow> nat \<Rightarrow> toot" where
  "image_toot p media =
     \<lparr>status = IMG_TOOT_TEMPLATE (country_name p), media_ids = [media],
      in_reply_to_id = None, toot_poll = None, spoiler_text = None,
      scheduled_hours = None, visibility = lit ''public''\<rparr>"

definition poll_toot :: "'r plan \<Rightarrow> posted \<Rightarrow> pystr list \<Rightarrow> toot" where
  "poll_toot p img_toot shuffled =
     \<lparr>status = POLL_TOOT_TPL, media_ids = [],
      in_reply_to_id = Some (toot_id img_toot),
      toot_poll = Some \<lparr>options = shuffled, expires_in = 3600 * nb_hours p,
                        multiple = False, hide_totals = False\<rparr>,
      spoiler_text = None, scheduled_hours = None, visibility = lit ''unlisted''\<rparr>"

definition answer_toot :: "'r plan \<Rightarrow> posted \<Rightarrow> pystr \<Rightarrow> toot" where
  "answer_toot p poll_reply answer =
     \<lparr>status = ANSWER_TOOT_TPL answer, media_ids = [],
      in_reply_to_id = Some (toot_id poll_reply), toot_poll = None,
      spoiler_text = Some ANSWER_TOOT_CW_TPL,
      scheduled_hours = Some (nb_hours p - 1), visibility = lit ''unlisted''\<rparr>"

definition publish :: "'r world \<Rightarrow> 'r plan \<Rightarrow> ('r, unit) prog" where
  "publish w p =
     bind (mastodon_media_post w (map_path p)) (\<lambda>media.
     bind (mastodon_status_post w (image_toot p media)) (\<lambda>img_toot.
     bind (os_remove (map_path p)) (\<lambda>_.
     bind (random_sample w (poll_options p) (length (poll_options p))) (\<lambda>shuffled.
     bind (mastodon_status_post w (poll_toot p img_toot shuffled)) (\<lambda>poll_reply.
     bind (lift (py_nth (poll_options p) (idx_pick p))) (\<lambda>answer.
     bind (mastodon_status_post w (answer_toot p poll_reply answer)) (\<lambda>_.
     ret ())))))))"

text \<open>The events that the publishing lines add to the trace of state \<open>s\<close>.\<close>

definition published :: "'r world \<Rightarrow> 'r plan \<Rightarrow> 'r st \<Rightarrow> 'r event list" where
  "published w p s = drop (length (trace s)) (trace (snd (publish w p s)))"

text \<open>The script from its first line, and a run of it from the initial state.\<close>

definition startup :: "'r world \<Rightarrow> args \<Rightarrow> ('r, 'r plan) prog" where
  "startup w a = bind (check_environment w) (\<lambda>_. prepare w a)"

definition program :: "'r world \<Rightarrow> args \<Rightarrow> ('r, unit) prog" where
  "program w a = bind (startup w a) (publish w)"

definition initial :: "'r world \<Rightarrow> 'r st" where
  "initial w = \<lparr>trace = [], rng_pos = 0, files = disk w\<rparr>"

definition run :: "'r world \<Rightarrow> args \<Rightarrow> (exn + unit) \<times> 'r st" where
  "run w a = program w a (initial w)"

text \<open>The status of the process: \<open>SystemExit n\<close> gives \<open>n\<close>, any other exception 1.\<close>

definition exit_status :: "exn + 'a \<Rightarrow> int" where
  "exit_status r = (case r of Inr _ \<Rightarrow> 0 | Inl (SystemExit n) \<Rightarrow> n | Inl _ \<Rightarrow> 1)"

text \<open>The events that reach the network, and those that touch a file.\<close>

fun network_event :: "'r event \<Rightarrow> bool" where
  "network_event (PlacesGet pt r rt l) = True"
| "network_event (ReverseGet pt) = True"
| "network_event (MediaPost pth ok) = True"
| "network_event (StatusPost t ok) = True"
| "network_event _ = False"

fun file_event :: "'r event \<Rightarrow> bool" where
  "file_event (FileOpen pth) = True"
| "file_event (Plot q pr pth) = True"
| "file_event (FileRemove pth) = True"
| "file_event (MediaPost pth ok) = True"
| "file_event _ = False"

section \<open>A concrete world\<close>

text \<open>
  The scenario of the specification's section 8: the dataset holds the one country
  Testland, a square; the places API answers with two places, the geocoder with
  the town and region of each; every call succeeds. Coordinates are integers here.
  The first draws of the sampler fall on the border of the square.
\<close>

definition testland :: "int country" where
  "testland = \<lparr>ADMIN = lit ''Testland'',
     geometry = \<lparr>bounds = (0, 0, 10, 10),
                 contains = (\<lambda>(x, y). 0 < x \<and> x < 10 \<and> 0 < y \<and> y < 10)\<rparr>\<rparr>"

definition place_a :: "int place" where
  "place_a = \<lparr>place_name = lit ''Place A'', geom_type = lit ''Point'', coordinates = (1, 1)\<rparr>"

definition place_b :: "int place" where
  "place_b = \<lparr>place_name = lit ''Place B'', geom_type = lit ''Point'', coordinates = (2, 2)\<rparr>"

definition demo_world :: "int world" where
  "demo_world =
     \<lparr>environ = [lit ''MASTODON_INSTANCE'' \<mapsto> lit ''https://example.social'',
                 lit ''MASTODON_ACCESS_TOKEN'' \<mapsto> lit ''token'',
                 lit ''OPENTRIPMAP_API_KEY'' \<mapsto> lit ''key''],
      recursion_limit = 1000,
      unicode_upper = (\<lambda>c. [c]),
      rand_below = (\<lambda>k. k),
      rand_uniform = (\<lambda>k a b. if k < 3 then b else a + 5),
      countries_file = Inr \<lparr>gtype = lit ''FeatureCollection'', features = [testland]\<rparr>,
      places_api = (\<lambda>n pt radius. Inr (200, [place_a, place_b])),
      reverse_api = (\<lambda>n pt. Inr [\<lparr>display_name = lit ''Main Square, Town, Region, Testland'',
                                     address_of = [lit ''town'' \<mapsto> lit ''Town'',
                                                   lit ''region'' \<mapsto> lit ''Region'']\<rparr>]),
      presets = [lit ''default'', lit ''minimal''],
      now_stamp = lit ''20230101-120000'',
      plot = (\<lambda>query preset path. None),
      media_post = (\<lambda>path. Inr 1),
      status_post = (\<lambda>t. Inr \<lparr>toot_id = length (status t), acct = lit ''bot''\<rparr>),
      disk = {}\<rparr>"

text \<open>The same world with another answer of the social network to a post.\<close>

definition demo_world_posting :: "(toot \<Rightarrow> exn + posted) \<Rightarrow> int world" where
  "demo_world_posting f = demo_world\<lparr>status_post := f\<rparr>"

text \<open>An instance that accepts the image post and refuses every reply.\<close>

definition refuse_replies :: "toot \<Rightarrow> exn + posted" where
  "refuse_replies t =
     (if in_reply_to_id t = None then Inr \<lparr>toot_id = 7, acct = lit ''bot''\<rparr>
      else Inl MastodonError)"

text \<open>What lines 188-227 produce in this world, and the state they leave.\<close>

definition demo_address :: "pystr \<rightharpoonup> pystr" where
  "demo_address = [lit ''town'' \<mapsto> lit ''Town'', lit ''region'' \<mapsto> lit ''Region'']"

definition demo_plan :: "int plan" where
  "demo_plan =
     \<lparr>country_name = lit ''Testland'', otm_places = [place_a, place_b],
      otm_names = [lit ''Place A'', lit ''Place B''],
      names = [lit ''Main Square, Town, Region, Testland'',
               lit ''Main Square, Town, Region, Testland''],
      addresses = [demo_address, demo_address],
      poll_options = [lit ''Place A, Town, Region'', lit ''Place B, Town, Region''],
      idx_pick = 0, map_path = lit ''prettymaps_20230101-120000_default.png'',
      nb_hours = 24\<rparr>"

definition demo_prepared :: "int st" where
  "demo_prepared =
     \<lparr>trace = [FileOpen (lit ''world_countries.geojson''),
               PlacesGet (5, 5) 50000 3 50, PlacesGet (5, 5) 50000 3 50,
               ReverseGet (1, 1), ReverseGet (2, 2),
               Plot (lit ''Main Square, Town, Region, Testland'') (lit ''default'')
                 (lit ''prettymaps_20230101-120000_default.png'')],
      rng_pos = 11,
      files = {lit ''prettymaps_20230101-120000_default.png''}\<rparr>"

definition demo_args :: args where
  "demo_args = \<lparr>arg_country = lit ''testland'', arg_nb_picks = Some 2,
     arg_preset = lit ''default'', arg_radius = Some 50, arg_hours = Some 24,
     arg_verbose = False\<rparr>"

section \<open>Properties of the formatter\<close>

lemma lit_dots: "lit ''..'' = [46, 46]"
  by (simp add: lit_def)

lemma dict_get_fallback:
  "dict_get address k1 (dict_get address k2 d) =
     (if address k1 \<noteq> None then the (address k1)
      else if address k2 \<noteq> None then the (address k2) else d)"
  by (auto simp: dict_get_def split: option.splits)

lemma create_poll_option_built:
  "create_poll_option name address m =
     (if int (length (spec_built name address)) \<le> m then spec_built name address
      else slice_to (spec_built name address) (m - 2) @ lit ''..'')"
  by (simp add: create_poll_option_def spec_built_def spec_city_def spec_region_def
      dict_get_fallback Let_def)

lemma slice_long:
  "50 < length xs \<Longrightarrow>
     length (slice_to xs 48 @ lit ''..'') = 50 \<and>
     drop 48 (slice_to xs 48 @ lit ''..'') = lit ''..'' \<and>
     take 48 (slice_to xs 48 @ lit ''..'') = take 48 xs"
  by (simp add: slice_to_def lit_dots)

text \<open>
  C1. With \<open>max_length = 50\<close>: when the built string \<open>opt\<close> (line 133) has at most 50
  characters it is returned as it is; when it is longer, the result has exactly 50
  characters, its last two are \<open>..\<close>, and its first 48 are the first 48 of \<open>opt\<close>.
\<close>

theorem create_poll_option_truncation:
  fixes name :: pystr and address :: "pystr \<rightharpoonup> pystr"
  defines "opt \<equiv> name @ lit '', ''
      @ dict_get address (lit ''municipality'') (dict_get address (lit ''town'') (lit ''somewhere''))
      @ lit '', ''
      @ dict_get address (lit ''state'') (dict_get address (lit ''region'') (lit ''somewhere''))"
  shows "(length opt \<le> 50 \<longrightarrow> create_poll_option name address 50 = opt) \<and>
         (50 < length opt \<longrightarrow>
            length (create_poll_option name address 50) = 50 \<and>
            drop 48 (create_poll_option name address 50) = lit ''..'' \<and>
            take 48 (create_poll_option name address 50) = take 48 opt)"
proof -
  have eq: "create_poll_option name address 50 =
      (if length opt \<le> 50 then opt else slice_to opt 48 @ lit ''..'')"
    unfolding create_poll_option_def opt_def Let_def by simp
  show ?thesis unfolding eq using slice_long [of opt] by auto
qed

theorem create_poll_option_truncation_witness:
  "create_poll_option (lit ''Louvre'')
      [lit ''municipality'' \<mapsto> lit ''Paris'', lit ''state'' \<mapsto> lit ''Ile-de-France''] 50
     = lit ''Louvre, Paris, Ile-de-France'' \<and>
   create_poll_option (lit ''Cathedrale Notre-Dame de Strasbourg'')
      [lit ''town'' \<mapsto> lit ''Strasbourg'', lit ''region'' \<mapsto> lit ''Grand Est''] 50
     = lit ''Cathedrale Notre-Dame de Strasbourg, Strasbourg,..''"
  using create_poll_option_truncation [of "lit ''Louvre''"
      "[lit ''municipality'' \<mapsto> lit ''Paris'', lit ''state'' \<mapsto> lit ''Ile-de-France'']"]
    create_poll_option_truncation [of "lit ''Cathedrale Notre-Dame de Strasbourg''"
      "[lit ''town'' \<mapsto> lit ''Strasbourg'', lit ''region'' \<mapsto> lit ''Grand Est'']"]
  by (simp add: lit_def dict_get_def create_poll_option_def slice_to_def)

text \<open>
  C7. The string built before truncation is \<open>name, city, region\<close>, where the city is
  the municipality field, else the town field, else \<open>somewhere\<close>, and the region is
  the state field, else the region field, else \<open>somewhere\<close>; nothing else is done to
  the parts. The result is that string when it fits \<open>max_length\<close>, and else its slice
  \<open>[:max_length - 2]\<close> followed by \<open>..\<close>.
\<close>

theorem create_poll_option_format:
  "(int (length (spec_built name address)) \<le> m \<longrightarrow>
      create_poll_option name address m
        = name @ lit '', '' @ spec_city address @ lit '', '' @ spec_region address) \<and>
   (m < int (length (spec_built name address)) \<longrightarrow>
      create_poll_option name address m
        = slice_to (name @ lit '', '' @ spec_city address @ lit '', '' @ spec_region address)
            (m - 2) @ lit ''..'')"
  by (simp add: create_poll_option_built) (simp add: spec_built_def)

theorem create_poll_option_format_witness:
  "create_poll_option (lit ''Place A'')
      [lit ''town'' \<mapsto> lit ''Town'', lit ''region'' \<mapsto> lit ''Region''] 50
     = lit ''Place A, Town, Region'' \<and>
   create_poll_option (lit ''Place  B'') Map.empty 20 = lit ''Place  B, somewher..''"
  using create_poll_option_format [of "lit ''Place A''"
      "[lit ''town'' \<mapsto> lit ''Town'', lit ''region'' \<mapsto> lit ''Region'']" 50]
    create_poll_option_format [of "lit ''Place  B''" Map.empty 20]
  by (simp add: lit_def spec_built_def spec_city_def spec_region_def slice_to_def)

lemma drawn_point_shift:
  "drawn_point w polygon (s\<lparr>rng_pos := rng_pos s + 2\<rparr>) k = drawn_point w polygon s (Suc k)"
  by (simp add: drawn_point_def split: prod.splits)

lemma drawn_point_shift2:
  "drawn_point w polygon (s\<lparr>rng_pos := Suc (Suc (rng_pos s))\<rparr>) k = drawn_point w polygon s (Suc k)"
  by (simp add: drawn_point_def split: prod.splits)

section \<open>Properties of the point sampler\<close>

lemma grp_step:
  "generate_random_point w (Suc depth) polygon s =
     (if contains polygon (drawn_point w polygon s 0) then (Inr (drawn_point w polygon s 0), s\<lparr>rng_pos := rng_pos s + 2\<rparr>)
      else generate_random_point w depth polygon (s\<lparr>rng_pos := rng_pos s + 2\<rparr>))"
  by (cases "bounds polygon") (simp add: drawn_point_def Let_def)

declare generate_random_point.simps(2) [simp del]

lemma grp_first:
  "k < depth \<Longrightarrow> contains polygon (drawn_point w polygon s k) \<Longrightarrow>
   (\<forall>j<k. \<not> contains polygon (drawn_point w polygon s j)) \<Longrightarrow>
   generate_random_point w depth polygon s
     = (Inr (drawn_point w polygon s k), s\<lparr>rng_pos := rng_pos s + 2 * Suc k\<rparr>)"
proof (induction depth arbitrary: s k)
  case 0
  then show ?case by simp
next
  case (Suc depth)
  show ?case
  proof (cases k)
    case 0
    with Suc.prems show ?thesis by (simp add: grp_step)
  next
    case (Suc k')
    with Suc.prems have rej: "\<not> contains polygon (drawn_point w polygon s 0)" by simp
    let ?s1 = "s\<lparr>rng_pos := rng_pos s + 2\<rparr>"
    have "generate_random_point w depth polygon ?s1
        = (Inr (drawn_point w polygon ?s1 k'), ?s1\<lparr>rng_pos := rng_pos ?s1 + 2 * Suc k'\<rparr>)"
    proof (rule Suc.IH)
      show "k' < depth" using Suc.prems(1) Suc by simp
      show "contains polygon (drawn_point w polygon ?s1 k')"
        using Suc.prems(2) Suc by (simp add: drawn_point_shift drawn_point_shift2)
      show "\<forall>j<k'. \<not> contains polygon (drawn_point w polygon ?s1 j)"
        using Suc.prems(3) Suc by (simp add: drawn_point_shift drawn_point_shift2)
    qed
    then show ?thesis using rej Suc by (simp add: grp_step drawn_point_shift drawn_point_shift2)
  qed
qed

lemma grp_none:
  "(\<forall>j<depth. \<not> contains polygon (drawn_point w polygon s j)) \<Longrightarrow>
   generate_random_point w depth polygon s
     = (Inl RecursionError, s\<lparr>rng_pos := rng_pos s + 2 * depth\<rparr>)"
proof (induction depth arbitrary: s)
  case 0
  then show ?case by simp
next
  case (Suc depth)
  let ?s1 = "s\<lparr>rng_pos := rng_pos s + 2\<rparr>"
  have rej: "\<not> contains polygon (drawn_point w polygon s 0)" using Suc.prems by simp
  have "generate_random_point w depth polygon ?s1
      = (Inl RecursionError, ?s1\<lparr>rng_pos := rng_pos ?s1 + 2 * depth\<rparr>)"
    by (rule Suc.IH) (use Suc.prems in \<open>auto simp: drawn_point_shift drawn_point_shift2\<close>)
  then show ?case using rej by (simp add: grp_step)
qed

lemma first_accept:
  assumes "\<exists>j<depth. contains polygon (drawn_point w polygon s j)"
  obtains k where "k < depth" "contains polygon (drawn_point w polygon s k)"
    "\<forall>j<k. \<not> contains polygon (drawn_point w polygon s j)"
proof -
  let ?P = "\<lambda>j. j < depth \<and> contains polygon (drawn_point w polygon s j)"
  from assms have ex: "\<exists>j. ?P j" by blast
  have "?P (LEAST j. ?P j)" using ex by (rule LeastI_ex)
  moreover have "\<forall>j<(LEAST j. ?P j). \<not> contains polygon (drawn_point w polygon s j)"
    using not_less_Least[of _ ?P] by (metis (mono_tags, lifting) calculation dual_order.strict_trans) 
  ultimately show ?thesis using that by blast
qed

text \<open>
  C2. Whenever \<open>generate_random_point\<close> returns a point, the polygon's containment
  test holds for it: it is the first drawn point that passes the test, every point
  drawn before it failed the test and was not returned. A drawn point that fails
  the test leads to a new draw; and when the \<open>k\<close>-th attempt is the first to pass
  and the recursion limit allows \<open>k + 1\<close> calls, the function does return it.
\<close>

theorem generate_random_point_accepts:
  "(generate_random_point w depth polygon s = (Inr p, s') \<longrightarrow>
      contains polygon p \<and>
      (\<exists>k<depth. p = drawn_point w polygon s k \<and>
         (\<forall>j<k. \<not> contains polygon (drawn_point w polygon s j)) \<and>
         s' = s\<lparr>rng_pos := rng_pos s + 2 * Suc k\<rparr>)) \<and>
   (k < depth \<and> contains polygon (drawn_point w polygon s k) \<and>
      (\<forall>j<k. \<not> contains polygon (drawn_point w polygon s j)) \<longrightarrow>
      generate_random_point w depth polygon s
        = (Inr (drawn_point w polygon s k), s\<lparr>rng_pos := rng_pos s + 2 * Suc k\<rparr>))"
proof (intro conjI impI)
  assume r: "generate_random_point w depth polygon s = (Inr p, s')"
  have ex: "\<exists>j<depth. contains polygon (drawn_point w polygon s j)"
  proof (rule ccontr)
    assume "\<not> ?thesis"
    then have "\<forall>j<depth. \<not> contains polygon (drawn_point w polygon s j)" by blast
    from grp_none[OF this] r show False by simp
  qed
  from first_accept[OF ex] obtain k0 where k0: "k0 < depth"
    "contains polygon (drawn_point w polygon s k0)"
    "\<forall>j<k0. \<not> contains polygon (drawn_point w polygon s j)" by blast
  from grp_first[OF k0] r have "p = drawn_point w polygon s k0"
    "s' = s\<lparr>rng_pos := rng_pos s + 2 * Suc k0\<rparr>" by simp_all
  with k0 show "contains polygon p" by simp
  show "\<exists>k<depth. p = drawn_point w polygon s k \<and>
         (\<forall>j<k. \<not> contains polygon (drawn_point w polygon s j)) \<and>
         s' = s\<lparr>rng_pos := rng_pos s + 2 * Suc k\<rparr>"
    using k0 \<open>p = _\<close> \<open>s' = _\<close> by blast
next
  assume "k < depth \<and> contains polygon (drawn_point w polygon s k) \<and>
      (\<forall>j<k. \<not> contains polygon (drawn_point w polygon s j))"
  then show "generate_random_point w depth polygon s
        = (Inr (drawn_point w polygon s k), s\<lparr>rng_pos := rng_pos s + 2 * Suc k\<rparr>)"
    using grp_first by blast
qed


theorem generate_random_point_accepts_witness:
  "generate_random_point demo_world 5 (geometry testland) (initial demo_world)
     = (Inr (5, 5), (initial demo_world)\<lparr>rng_pos := 6\<rparr>) \<and>
   contains (geometry testland) (5, 5) \<and>
   \<not> contains (geometry testland)
       (drawn_point demo_world (geometry testland) (initial demo_world) 0) \<and>
   \<not> contains (geometry testland)
       (drawn_point demo_world (geometry testland) (initial demo_world) 1)"
proof -
  have d: "drawn_point demo_world (geometry testland) (initial demo_world) 0 = (10, 10)"
    "drawn_point demo_world (geometry testland) (initial demo_world) 1 = (10, 5)"
    "drawn_point demo_world (geometry testland) (initial demo_world) 2 = (5, 5)"
    by (simp_all add: drawn_point_def testland_def demo_world_def initial_def)
  have c: "\<not> contains (geometry testland) (10, 10)" "\<not> contains (geometry testland) (10, 5)"
    "contains (geometry testland) (5, 5)"
    by (simp_all add: testland_def)
  have "\<forall>j<2. \<not> contains (geometry testland)
       (drawn_point demo_world (geometry testland) (initial demo_world) j)"
    using d c by (auto simp: less_Suc_eq numeral_2_eq_2)
  with d c generate_random_point_accepts [of demo_world 5 "geometry testland" "initial demo_world"
      "(5, 5)" "(initial demo_world)\<lparr>rng_pos := 6\<rparr>" 2]
  show ?thesis by (simp add: initial_def)
qed

section \<open>Properties of the country selector\<close>

lemma foldl_upd_lookup:
  "foldl (\<lambda>d c. d(key c \<mapsto> c)) d0 xs k =
     (case find (\<lambda>c. key c = k) (rev xs) of Some c \<Rightarrow> Some c | None \<Rightarrow> d0 k)"
  by (induction xs rule: rev_induct) auto

lemma find_none: "find P xs = None \<longleftrightarrow> (\<forall>x\<in>set xs. \<not> P x)"
  by (induction xs) auto

lemma find_some: "find P xs = Some x \<Longrightarrow> P x \<and> x \<in> set xs"
  by (induction xs) (auto split: if_splits)

lemma pick_country_lookup:
  "country \<noteq> lit ''random'' \<Longrightarrow>
   pick_country w country s =
     (case countries_file w of
        Inl e \<Rightarrow> (Inl e, s\<lparr>trace := trace s @ [FileOpen (lit ''world_countries.geojson'')]\<rparr>)
      | Inr g \<Rightarrow>
          if gtype g \<noteq> lit ''FeatureCollection''
          then (Inl AssertionError,
                s\<lparr>trace := trace s @ [FileOpen (lit ''world_countries.geojson'')]\<rparr>)
          else (case find (\<lambda>c. upper (unicode_upper w) (ADMIN c)
                                  = upper (unicode_upper w) country) (rev (features g)) of
                  None \<Rightarrow> (Inl KeyError,
                           s\<lparr>trace := trace s @ [FileOpen (lit ''world_countries.geojson'')]\<rparr>)
                | Some c \<Rightarrow> (Inr c,
                           s\<lparr>trace := trace s @ [FileOpen (lit ''world_countries.geojson'')]\<rparr>)))"
  by (simp add: pick_country_def bind_def emit_def lift_def raise_def ret_def
      foldl_upd_lookup Let_def split: sum.splits option.splits)

lemma pick_country_random:
  "pick_country w (lit ''random'') s =
     (case countries_file w of
        Inl e \<Rightarrow> (Inl e, s\<lparr>trace := trace s @ [FileOpen (lit ''world_countries.geojson'')]\<rparr>)
      | Inr g \<Rightarrow>
          if gtype g \<noteq> lit ''FeatureCollection''
          then (Inl AssertionError,
                s\<lparr>trace := trace s @ [FileOpen (lit ''world_countries.geojson'')]\<rparr>)
          else random_choice w (features g)
                 (s\<lparr>trace := trace s @ [FileOpen (lit ''world_countries.geojson'')]\<rparr>))"
  by (simp add: pick_country_def bind_def emit_def lift_def raise_def ret_def
      split: sum.splits)

lemma pick_country_unmatched:
  assumes "country \<noteq> lit ''random''" and "countries_file w = Inr g"
    and "gtype g = lit ''FeatureCollection''"
    and "\<forall>c\<in>set (features g). upper (unicode_upper w) (ADMIN c) \<noteq> upper (unicode_upper w) country"
  shows "fst (pick_country w country s) = Inl KeyError"
proof -
  have "find (\<lambda>c. upper (unicode_upper w) (ADMIN c) = upper (unicode_upper w) country)
      (rev (features g)) = None"
    using assms(4) by (simp add: find_none)
  then show ?thesis using assms(1,2,3) by (simp add: pick_country_lookup)
qed

lemma pick_country_matched:
  assumes "country \<noteq> lit ''random''" and "countries_file w = Inr g"
    and "gtype g = lit ''FeatureCollection''"
    and "\<exists>c\<in>set (features g). upper (unicode_upper w) (ADMIN c) = upper (unicode_upper w) country"
  shows "\<exists>c\<in>set (features g). fst (pick_country w country s) = Inr c \<and>
           upper (unicode_upper w) (ADMIN c) = upper (unicode_upper w) country"
proof -
  obtain c where f: "find (\<lambda>c. upper (unicode_upper w) (ADMIN c) = upper (unicode_upper w) country)
      (rev (features g)) = Some c"
    using assms(4)
    by (cases "find (\<lambda>c. upper (unicode_upper w) (ADMIN c) = upper (unicode_upper w) country)
      (rev (features g))") (auto simp: find_none)
  from find_some [OF f] f assms(1,2,3) show ?thesis
    by (auto simp: pick_country_lookup)
qed

lemma check_environment_ok:
  assumes "environ w (lit ''MASTODON_INSTANCE'') \<noteq> None"
    and "environ w (lit ''MASTODON_ACCESS_TOKEN'') \<noteq> None"
    and "environ w (lit ''OPENTRIPMAP_API_KEY'') \<noteq> None"
  shows "check_environment w s = (Inr (), s)"
  using assms by (auto simp: check_environment_def ret_def)

lemma prepare_country_error:
  assumes "arg_nb_picks a = Some nb" and "2 \<le> nb" and "nb \<le> 4"
    and "arg_radius a = Some r" and "arg_hours a = Some h"
    and "pick_country w (arg_country a) s = (Inl e, s1)"
  shows "prepare w a s = (Inl e, s1)"
  using assms by (simp add: prepare_def py_int_def bind_def ret_def)

lemma run_country_error:
  assumes "environ w (lit ''MASTODON_INSTANCE'') \<noteq> None"
    and "environ w (lit ''MASTODON_ACCESS_TOKEN'') \<noteq> None"
    and "environ w (lit ''OPENTRIPMAP_API_KEY'') \<noteq> None"
    and "arg_nb_picks a = Some nb" and "2 \<le> nb" and "nb \<le> 4"
    and "arg_radius a \<noteq> None" and "arg_hours a \<noteq> None"
    and "fst (pick_country w (arg_country a) (initial w)) = Inl e"
  shows "fst (run w a) = Inl e"
proof -
  obtain s1 where p: "pick_country w (arg_country a) (initial w) = (Inl e, s1)"
    using assms(9) by (cases "pick_country w (arg_country a) (initial w)") auto
  obtain r h where rh: "arg_radius a = Some r" "arg_hours a = Some h"
    using assms(7,8) by auto
  have "prepare w a (initial w) = (Inl e, s1)"
    by (rule prepare_country_error [OF assms(4,5,6) rh p])
  then show ?thesis
    using check_environment_ok [OF assms(1,2,3)]
    by (simp add: run_def program_def startup_def bind_def)
qed

text \<open>
  C6. For a name other than \<open>random\<close> the lookup ignores case and depends on nothing
  but the dataset: two names with the same upper-case form give the same result,
  in any two states. A name that no feature matches raises KeyError, and the run
  ends with that KeyError (nothing catches it); a name that some feature matches
  returns a feature of that name. For \<open>random\<close> every feature of the dataset can be
  the one returned: the feature at the index the generator draws.
\<close>

theorem pick_country_by_name:
  "(country \<noteq> lit ''random'' \<and> country' \<noteq> lit ''random'' \<and>
      upper (unicode_upper w) country = upper (unicode_upper w) country' \<longrightarrow>
      fst (pick_country w country s) = fst (pick_country w country' s')) \<and>
   (country \<noteq> lit ''random'' \<and> countries_file w = Inr g \<and>
      gtype g = lit ''FeatureCollection'' \<and>
      (\<forall>c\<in>set (features g).
          upper (unicode_upper w) (ADMIN c) \<noteq> upper (unicode_upper w) country) \<longrightarrow>
      fst (pick_country w country s) = Inl KeyError \<and>
      (environ w (lit ''MASTODON_INSTANCE'') \<noteq> None \<and>
       environ w (lit ''MASTODON_ACCESS_TOKEN'') \<noteq> None \<and>
       environ w (lit ''OPENTRIPMAP_API_KEY'') \<noteq> None \<and>
       arg_country a = country \<and> arg_nb_picks a = Some nb \<and> 2 \<le> nb \<and> nb \<le> 4 \<and>
       arg_radius a \<noteq> None \<and> arg_hours a \<noteq> None \<longrightarrow>
       fst (run w a) = Inl KeyError)) \<and>
   (country \<noteq> lit ''random'' \<and> countries_file w = Inr g \<and>
      gtype g = lit ''FeatureCollection'' \<and>
      (\<exists>c\<in>set (features g).
          upper (unicode_upper w) (ADMIN c) = upper (unicode_upper w) country) \<longrightarrow>
      (\<exists>c\<in>set (features g). fst (pick_country w country s) = Inr c \<and>
         upper (unicode_upper w) (ADMIN c) = upper (unicode_upper w) country)) \<and>
   (countries_file w = Inr g \<and> gtype g = lit ''FeatureCollection'' \<and>
      i < length (features g) \<and> rand_below w (rng_pos s) = i \<longrightarrow>
      fst (pick_country w (lit ''random'') s) = Inr (features g ! i))"
proof (intro conjI impI)
  assume "country \<noteq> lit ''random'' \<and> country' \<noteq> lit ''random'' \<and>
      upper (unicode_upper w) country = upper (unicode_upper w) country'"
  then show "fst (pick_country w country s) = fst (pick_country w country' s')"
    by (simp add: pick_country_lookup split: sum.splits option.splits)
next
  assume a: "country \<noteq> lit ''random'' \<and> countries_file w = Inr g \<and>
      gtype g = lit ''FeatureCollection'' \<and>
      (\<forall>c\<in>set (features g).
          upper (unicode_upper w) (ADMIN c) \<noteq> upper (unicode_upper w) country)"
  then show k: "fst (pick_country w country s) = Inl KeyError"
    using pick_country_unmatched by blast
  assume b: "environ w (lit ''MASTODON_INSTANCE'') \<noteq> None \<and>
       environ w (lit ''MASTODON_ACCESS_TOKEN'') \<noteq> None \<and>
       environ w (lit ''OPENTRIPMAP_API_KEY'') \<noteq> None \<and>
       arg_country a = country \<and> arg_nb_picks a = Some nb \<and> 2 \<le> nb \<and> nb \<le> 4 \<and>
       arg_radius a \<noteq> None \<and> arg_hours a \<noteq> None"
  have "fst (pick_country w (arg_country a) (initial w)) = Inl KeyError"
    using a b pick_country_unmatched by blast
  with b show "fst (run w a) = Inl KeyError"
    using run_country_error by blast
next
  assume "country \<noteq> lit ''random'' \<and> countries_file w = Inr g \<and>
      gtype g = lit ''FeatureCollection'' \<and>
      (\<exists>c\<in>set (features g).
          upper (unicode_upper w) (ADMIN c) = upper (unicode_upper w) country)"
  then show "\<exists>c\<in>set (features g). fst (pick_country w country s) = Inr c \<and>
         upper (unicode_upper w) (ADMIN c) = upper (unicode_upper w) country"
    using pick_country_matched by blast
next
  assume "countries_file w = Inr g \<and> gtype g = lit ''FeatureCollection'' \<and>
      i < length (features g) \<and> rand_below w (rng_pos s) = i"
  then show "fst (pick_country w (lit ''random'') s) = Inr (features g ! i)"
    by (auto simp: pick_country_random random_choice_def)
qed

lemma upper_testland:
  "upper (\<lambda>c. [c]) (lit ''testland'') = lit ''TESTLAND''"
  "upper (\<lambda>c. [c]) (lit ''Testland'') = lit ''TESTLAND''"
  "upper (\<lambda>c. [c]) (lit ''TESTLAND'') = lit ''TESTLAND''"
  "upper (\<lambda>c. [c]) (lit ''Atlantis'') = lit ''ATLANTIS''"
  by (simp_all add: upper_def upper_char_def lit_def)

lemma demo_world_fields:
  "countries_file demo_world = Inr \<lparr>gtype = lit ''FeatureCollection'', features = [testland]\<rparr>"
  "unicode_upper demo_world = (\<lambda>c. [c])"
  "rand_below demo_world = (\<lambda>k. k)"
  "environ demo_world (lit ''MASTODON_INSTANCE'') \<noteq> None"
  "environ demo_world (lit ''MASTODON_ACCESS_TOKEN'') \<noteq> None"
  "environ demo_world (lit ''OPENTRIPMAP_API_KEY'') \<noteq> None"
  by (simp_all add: demo_world_def lit_def)

theorem pick_country_by_name_witness:
  "fst (pick_country demo_world (lit ''testland'') (initial demo_world))
     = fst (pick_country demo_world (lit ''TESTLAND'') (initial demo_world)) \<and>
   fst (pick_country demo_world (lit ''testland'') (initial demo_world)) = Inr testland \<and>
   fst (pick_country demo_world (lit ''random'') (initial demo_world)) = Inr testland \<and>
   fst (pick_country demo_world (lit ''Atlantis'') (initial demo_world)) = Inl KeyError \<and>
   fst (run demo_world (demo_args\<lparr>arg_country := lit ''Atlantis''\<rparr>)) = Inl KeyError"
proof -
  let ?g = "\<lparr>gtype = lit ''FeatureCollection'', features = [testland]\<rparr>"
  have ne: "lit ''testland'' \<noteq> lit ''random''" "lit ''TESTLAND'' \<noteq> lit ''random''"
    "lit ''Atlantis'' \<noteq> lit ''random''" "lit ''ATLANTIS'' \<noteq> lit ''TESTLAND''"
    by (simp_all add: lit_def)
  have adm: "ADMIN testland = lit ''Testland''" by (simp add: testland_def)
  have r0: "rng_pos (initial demo_world) = 0" by (simp add: initial_def)
  have one: "fst (pick_country demo_world (lit ''testland'') (initial demo_world))
       = fst (pick_country demo_world (lit ''TESTLAND'') (initial demo_world)) \<and>
     fst (pick_country demo_world (lit ''testland'') (initial demo_world)) = Inr testland \<and>
     fst (pick_country demo_world (lit ''random'') (initial demo_world)) = Inr testland"
    using pick_country_by_name [of "lit ''testland''" "lit ''TESTLAND''" demo_world
        "initial demo_world" "initial demo_world" ?g demo_args 2 0] ne adm r0
    by (auto simp: demo_world_fields upper_testland)
  have two: "fst (pick_country demo_world (lit ''Atlantis'') (initial demo_world)) = Inl KeyError \<and>
     fst (run demo_world (demo_args\<lparr>arg_country := lit ''Atlantis''\<rparr>)) = Inl KeyError"
    using pick_country_by_name [of "lit ''Atlantis''" "lit ''Atlantis''" demo_world
      "initial demo_world" "initial demo_world" ?g
      "demo_args\<lparr>arg_country := lit ''Atlantis''\<rparr>" 2 0] ne adm
    by (simp add: demo_world_fields upper_testland demo_args_def)
  from one two show ?thesis by blast
qed

lemma upper_Random:
  "upper tbl (lit ''Random'') = lit ''RANDOM''"
  "upper tbl (lit ''RANDOM'') = lit ''RANDOM''"
  "upper tbl (lit ''random'') = lit ''RANDOM''"
  "lit ''Random'' \<noteq> lit ''random''"
  "lit ''RANDOM'' \<noteq> lit ''random''"
  by (simp_all add: upper_def upper_char_def lit_def)

text \<open>
  C9. The sentinel is compared as it is written. A name that is not exactly
  \<open>random\<close> but has the upper-case form \<open>RANDOM\<close> (as \<open>Random\<close> and \<open>RANDOM\<close> have) is
  looked up by name: no random draw is made, the result is KeyError when no
  feature of the dataset has the upper-case name \<open>RANDOM\<close>, and a feature of that
  name when there is one. Only \<open>random\<close> itself makes the random choice, which
  takes one draw.
\<close>

theorem pick_country_sentinel_case:
  "(countries_file w = Inr g \<and> gtype g = lit ''FeatureCollection'' \<and>
      country \<noteq> lit ''random'' \<and> upper (unicode_upper w) country = lit ''RANDOM'' \<longrightarrow>
      rng_pos (snd (pick_country w country s)) = rng_pos s \<and>
      ((\<forall>c\<in>set (features g). upper (unicode_upper w) (ADMIN c) \<noteq> lit ''RANDOM'') \<longrightarrow>
         fst (pick_country w country s) = Inl KeyError) \<and>
      ((\<exists>c\<in>set (features g). upper (unicode_upper w) (ADMIN c) = lit ''RANDOM'') \<longrightarrow>
         (\<exists>c\<in>set (features g). fst (pick_country w country s) = Inr c \<and>
            upper (unicode_upper w) (ADMIN c) = lit ''RANDOM''))) \<and>
   (countries_file w = Inr g \<and> gtype g = lit ''FeatureCollection'' \<and> features g \<noteq> [] \<longrightarrow>
      pick_country w (lit ''random'') s
        = (Inr (features g ! (rand_below w (rng_pos s) mod length (features g))),
           s\<lparr>trace := trace s @ [FileOpen (lit ''world_countries.geojson'')],
             rng_pos := Suc (rng_pos s)\<rparr>)) \<and>
   upper (unicode_upper w) (lit ''Random'') = lit ''RANDOM'' \<and>
   lit ''Random'' \<noteq> lit ''random'' \<and>
   upper (unicode_upper w) (lit ''RANDOM'') = lit ''RANDOM'' \<and>
   lit ''RANDOM'' \<noteq> lit ''random''"
proof (intro conjI impI)
  assume a: "countries_file w = Inr g \<and> gtype g = lit ''FeatureCollection'' \<and>
      country \<noteq> lit ''random'' \<and> upper (unicode_upper w) country = lit ''RANDOM''"
  then show "rng_pos (snd (pick_country w country s)) = rng_pos s"
    by (simp add: pick_country_lookup split: option.splits)
  {
    assume "\<forall>c\<in>set (features g). upper (unicode_upper w) (ADMIN c) \<noteq> lit ''RANDOM''"
    with a show "fst (pick_country w country s) = Inl KeyError"
      using pick_country_unmatched [of country w g s] by simp
  }
  {
    assume "\<exists>c\<in>set (features g). upper (unicode_upper w) (ADMIN c) = lit ''RANDOM''"
    with a show "\<exists>c\<in>set (features g). fst (pick_country w country s) = Inr c \<and>
            upper (unicode_upper w) (ADMIN c) = lit ''RANDOM''"
      using pick_country_matched [of country w g s] by simp
  }
next
  assume "countries_file w = Inr g \<and> gtype g = lit ''FeatureCollection'' \<and> features g \<noteq> []"
  then show "pick_country w (lit ''random'') s
        = (Inr (features g ! (rand_below w (rng_pos s) mod length (features g))),
           s\<lparr>trace := trace s @ [FileOpen (lit ''world_countries.geojson'')],
             rng_pos := Suc (rng_pos s)\<rparr>)"
    by (simp add: pick_country_random random_choice_def)
qed (simp_all add: upper_Random)

theorem pick_country_sentinel_case_witness:
  "fst (pick_country demo_world (lit ''Random'') (initial demo_world)) = Inl KeyError \<and>
   rng_pos (snd (pick_country demo_world (lit ''Random'') (initial demo_world))) = 0 \<and>
   fst (pick_country
          (demo_world\<lparr>countries_file := Inr \<lparr>gtype = lit ''FeatureCollection'',
             features = [testland, testland\<lparr>ADMIN := lit ''Random''\<rparr>]\<rparr>\<rparr>)
          (lit ''RANDOM'') (initial demo_world))
     = Inr (testland\<lparr>ADMIN := lit ''Random''\<rparr>) \<and>
   pick_country demo_world (lit ''random'') (initial demo_world)
     = (Inr testland,
        (initial demo_world)\<lparr>trace := [FileOpen (lit ''world_countries.geojson'')],
           rng_pos := 1\<rparr>)"
proof -
  let ?g = "\<lparr>gtype = lit ''FeatureCollection'', features = [testland]\<rparr>"
  let ?g2 = "\<lparr>gtype = lit ''FeatureCollection'',
     features = [testland, testland\<lparr>ADMIN := lit ''Random''\<rparr>]\<rparr>"
  have adm: "ADMIN testland = lit ''Testland''" by (simp add: testland_def)
  have ne: "lit ''TESTLAND'' \<noteq> lit ''RANDOM''" by (simp add: lit_def)
  have init: "rng_pos (initial demo_world) = 0" "trace (initial demo_world) = []"
    by (simp_all add: initial_def)
  have one: "fst (pick_country demo_world (lit ''Random'') (initial demo_world)) = Inl KeyError \<and>
      rng_pos (snd (pick_country demo_world (lit ''Random'') (initial demo_world))) = 0 \<and>
      pick_country demo_world (lit ''random'') (initial demo_world)
        = (Inr testland,
           (initial demo_world)\<lparr>trace := [FileOpen (lit ''world_countries.geojson'')],
              rng_pos := 1\<rparr>)"
    using pick_country_sentinel_case [of demo_world ?g "lit ''Random''" "initial demo_world"]
      adm ne init
    by (simp add: demo_world_fields upper_Random upper_testland)
  have two: "fst (pick_country (demo_world\<lparr>countries_file := Inr ?g2\<rparr>)
          (lit ''RANDOM'') (initial demo_world)) = Inr (testland\<lparr>ADMIN := lit ''Random''\<rparr>)"
    using pick_country_sentinel_case [of "demo_world\<lparr>countries_file := Inr ?g2\<rparr>" ?g2
        "lit ''RANDOM''" "initial demo_world"] adm ne
    by (auto simp: demo_world_fields upper_Random upper_testland)
  from one two show ?thesis by blast
qed

section \<open>Properties of the start of a run\<close>

lemma check_environment_missing:
  assumes "environ w (lit ''MASTODON_INSTANCE'') = None \<or>
     environ w (lit ''MASTODON_ACCESS_TOKEN'') = None \<or>
     environ w (lit ''OPENTRIPMAP_API_KEY'') = None"
  shows "\<exists>msg. check_environment w s = (Inl (SystemExit 1), s\<lparr>trace := trace s @ [LogError msg]\<rparr>)"
  using assms by (auto simp: check_environment_def bind_def emit_def raise_def)

lemma run_missing:
  assumes "environ w (lit ''MASTODON_INSTANCE'') = None \<or>
     environ w (lit ''MASTODON_ACCESS_TOKEN'') = None \<or>
     environ w (lit ''OPENTRIPMAP_API_KEY'') = None"
  shows "\<exists>msg. run w a = (Inl (SystemExit 1), (initial w)\<lparr>trace := [LogError msg]\<rparr>)"
proof -
  from check_environment_missing [OF assms, of "initial w"] obtain msg where
    "check_environment w (initial w)
       = (Inl (SystemExit 1), (initial w)\<lparr>trace := trace (initial w) @ [LogError msg]\<rparr>)"
    by blast
  then have "run w a = (Inl (SystemExit 1), (initial w)\<lparr>trace := [LogError msg]\<rparr>)"
    by (simp add: run_def program_def startup_def bind_def initial_def)
  then show ?thesis by blast
qed





text \<open>
  C5. When one of the three environment variables is missing, the run logs one
  error and ends with \<open>SystemExit 1\<close>; the logged error is its only event, so no
  network call and no file access precede the exit, and the disk is untouched.
\<close>

theorem missing_environment_exits:
  assumes "environ w (lit ''MASTODON_INSTANCE'') = None \<or>
     environ w (lit ''MASTODON_ACCESS_TOKEN'') = None \<or>
     environ w (lit ''OPENTRIPMAP_API_KEY'') = None"
  shows "fst (run w a) = Inl (SystemExit 1) \<and> exit_status (fst (run w a)) = 1 \<and>
     (\<exists>msg. trace (snd (run w a)) = [LogError msg]) \<and>
     (\<forall>ev\<in>set (trace (snd (run w a))). \<not> network_event ev \<and> \<not> file_event ev) \<and>
     files (snd (run w a)) = disk w"
proof -
  from run_missing [OF assms, of a] obtain msg where
    "run w a = (Inl (SystemExit 1), (initial w)\<lparr>trace := [LogError msg]\<rparr>)" by blast
  then show ?thesis by (simp add: exit_status_def initial_def)
qed

theorem missing_environment_exits_witness:
  "fst (run (demo_world\<lparr>environ := (environ demo_world)(lit ''OPENTRIPMAP_API_KEY'' := None)\<rparr>) demo_args)
     = Inl (SystemExit 1) \<and>
   trace (snd (run (demo_world\<lparr>environ := (environ demo_world)(lit ''OPENTRIPMAP_API_KEY'' := None)\<rparr>) demo_args))
     = [LogError (lit ''Error: OPENTRIPMAP_API_KEY environment variable not set'')]"
proof -
  let ?w = "demo_world\<lparr>environ := (environ demo_world)(lit ''OPENTRIPMAP_API_KEY'' := None)\<rparr>"
  have c: "check_environment ?w (initial ?w) = (Inl (SystemExit 1), (initial ?w)\<lparr>trace :=
     [LogError (lit ''Error: OPENTRIPMAP_API_KEY environment variable not set'')]\<rparr>)"
    by (simp add: check_environment_def demo_world_def initial_def bind_def emit_def raise_def lit_def)
  have "environ ?w (lit ''OPENTRIPMAP_API_KEY'') = None" by simp
  with missing_environment_exits [of ?w demo_args] c
  show ?thesis by (simp add: run_def program_def startup_def bind_def)
qed




section \<open>The sample of a whole list\<close>

lemma sample_step_mset:
  assumes "j < Suc m" and "Suc m \<le> length pool"
  shows "add_mset (pool ! j) (mset (take m (pool[j := pool ! m]))) = mset (take (Suc m) pool)"
proof (cases "j = m")
  case True
  then show ?thesis using assms by (simp add: take_Suc_conv_app_nth)
next
  case False
  with assms have jm: "j < m" by simp
  have "mset (take m (pool[j := pool ! m])) = mset ((take m pool)[j := pool ! m])"
    by (simp add: take_update_swap)
  also have "\<dots> = add_mset (pool ! m) (mset (take m pool) - {#take m pool ! j#})"
    using jm assms by (simp add: mset_update)
  finally have "add_mset (pool ! j) (mset (take m (pool[j := pool ! m])))
      = add_mset (pool ! m) (add_mset (pool ! j) (mset (take m pool) - {#pool ! j#}))"
    using jm by simp
  also have "pool ! j \<in># mset (take m pool)"
    using jm assms by (metis in_set_conv_nth length_take min.absorb2 nth_take set_mset_mset Suc_leD)
  then have "add_mset (pool ! j) (mset (take m pool) - {#pool ! j#}) = mset (take m pool)"
    by simp
  finally show ?thesis using assms by (simp add: take_Suc_conv_app_nth)
qed

lemma sample_loop_mset:
  "m \<le> length pool \<Longrightarrow> mset (sample_loop w pool m m pos) = mset (take m pool)"
proof (induction m arbitrary: pool pos)
  case 0
  then show ?case by simp
next
  case (Suc m)
  let ?j = "rand_below w pos mod Suc m"
  have j: "?j < Suc m" by simp
  have "mset (sample_loop w (pool[?j := pool ! m]) m m (Suc pos))
      = mset (take m (pool[?j := pool ! m]))"
    by (rule Suc.IH) (use Suc.prems in simp)
  then show ?case
    using sample_step_mset [OF j Suc.prems] by (simp add: Let_def)
qed

lemma random_sample_all:
  "random_sample w xs (length xs) s
     = (Inr (sample_loop w xs (length xs) (length xs) (rng_pos s)),
        s\<lparr>rng_pos := rng_pos s + length xs\<rparr>)"
  by (simp add: random_sample_def)

lemma sample_loop_perm: "mset (sample_loop w xs (length xs) (length xs) pos) = mset xs"
  using sample_loop_mset [of "length xs" xs w pos] by simp


section \<open>The publishing lines, case by case\<close>

lemma publish_cases:
  assumes "publish w p s = (r, s2)"
  defines "path \<equiv> map_path p"
    and "shuffled \<equiv> sample_loop w (poll_options p) (length (poll_options p))
           (length (poll_options p)) (rng_pos s)"
  shows "\<exists>evs. trace s2 = trace s @ evs \<and>
     ((evs = [MediaPost path False] \<and> files s2 = files s \<and> r \<noteq> Inr ()) \<or>
      (\<exists>m. evs = [MediaPost path True, StatusPost (image_toot p m) False] \<and>
         files s2 = files s \<and> r \<noteq> Inr ()) \<or>
      (\<exists>m. evs = [MediaPost path True, StatusPost (image_toot p m) True, FileRemove path] \<and>
         path \<notin> files s \<and> files s2 = files s \<and> r = Inl FileNotFoundError) \<or>
      (\<exists>m img. evs = [MediaPost path True, StatusPost (image_toot p m) True, FileRemove path,
           StatusPost (poll_toot p img shuffled) False] \<and>
         path \<in> files s \<and> files s2 = files s - {path} \<and> r \<noteq> Inr ()) \<or>
      (\<exists>m img. evs = [MediaPost path True, StatusPost (image_toot p m) True, FileRemove path,
           StatusPost (poll_toot p img shuffled) True] \<and>
         path \<in> files s \<and> files s2 = files s - {path} \<and>
         py_nth (poll_options p) (idx_pick p) = Inl IndexError \<and> r = Inl IndexError) \<or>
      (\<exists>m img pr answer ok. evs = [MediaPost path True, StatusPost (image_toot p m) True,
           FileRemove path, StatusPost (poll_toot p img shuffled) True,
           StatusPost (answer_toot p pr answer) ok] \<and>
         path \<in> files s \<and> files s2 = files s - {path} \<and>
         py_nth (poll_options p) (idx_pick p) = Inr answer \<and> (ok \<longleftrightarrow> r = Inr ())))"
  using assms(1) unfolding path_def shuffled_def
  by (auto simp: publish_def bind_def mastodon_media_post_def mastodon_status_post_def
      os_remove_def random_sample_def lift_def ret_def Let_def py_nth_def
      split: sum.splits if_splits)


lemma published_intro:
  assumes "publish w p s = (r, s2)" and "\<exists>evs. trace s2 = trace s @ evs \<and> D evs"
  shows "trace s2 = trace s @ published w p s \<and> D (published w p s)"
proof -
  from assms(2) obtain evs where e: "trace s2 = trace s @ evs" and d: "D evs" by blast
  have "published w p s = evs" using e assms(1) by (simp add: published_def)
  with e d show ?thesis by simp
qed

lemma published_cases:
  assumes "publish w p s = (r, s2)"
  defines "path \<equiv> map_path p"
    and "shuffled \<equiv> sample_loop w (poll_options p) (length (poll_options p))
           (length (poll_options p)) (rng_pos s)"
  shows "trace s2 = trace s @ published w p s \<and>
     ((published w p s = [MediaPost path False] \<and> files s2 = files s \<and> r \<noteq> Inr ()) \<or>
      (\<exists>m. published w p s = [MediaPost path True, StatusPost (image_toot p m) False] \<and>
         files s2 = files s \<and> r \<noteq> Inr ()) \<or>
      (\<exists>m. published w p s
           = [MediaPost path True, StatusPost (image_toot p m) True, FileRemove path] \<and>
         path \<notin> files s \<and> files s2 = files s \<and> r = Inl FileNotFoundError) \<or>
      (\<exists>m img. published w p s
           = [MediaPost path True, StatusPost (image_toot p m) True, FileRemove path,
              StatusPost (poll_toot p img shuffled) False] \<and>
         path \<in> files s \<and> files s2 = files s - {path} \<and> r \<noteq> Inr ()) \<or>
      (\<exists>m img. published w p s
           = [MediaPost path True, StatusPost (image_toot p m) True, FileRemove path,
              StatusPost (poll_toot p img shuffled) True] \<and>
         path \<in> files s \<and> files s2 = files s - {path} \<and>
         py_nth (poll_options p) (idx_pick p) = Inl IndexError \<and> r = Inl IndexError) \<or>
      (\<exists>m img pr answer ok. published w p s
           = [MediaPost path True, StatusPost (image_toot p m) True, FileRemove path,
              StatusPost (poll_toot p img shuffled) True,
              StatusPost (answer_toot p pr answer) ok] \<and>
         path \<in> files s \<and> files s2 = files s - {path} \<and>
         py_nth (poll_options p) (idx_pick p) = Inr answer \<and> (ok \<longleftrightarrow> r = Inr ())))"
  unfolding path_def shuffled_def
  by (rule published_intro [OF assms(1) publish_cases [OF assms(1)]])

lemma published_success:
  assumes "publish w p s = (Inr (), s2)"
  shows "\<exists>m img pr answer. py_nth (poll_options p) (idx_pick p) = Inr answer \<and>
     published w p s
       = [MediaPost (map_path p) True, StatusPost (image_toot p m) True,
          FileRemove (map_path p),
          StatusPost (poll_toot p img (sample_loop w (poll_options p)
             (length (poll_options p)) (length (poll_options p)) (rng_pos s))) True,
          StatusPost (answer_toot p pr answer) True]"
  using published_cases [OF assms] by auto

section \<open>What the preparing lines hand over\<close>

lemma bindE:
  assumes "bind m f s = (Inr y, s')"
  obtains x s1 where "m s = (Inr x, s1)" and "f x s1 = (Inr y, s')"
  using assms by (auto simp: bind_def split: prod.splits sum.splits)

lemma py_int_Inr: "py_int v s = (Inr n, s') \<Longrightarrow> v = Some n \<and> s' = s"
  by (auto simp: py_int_def raise_def ret_def split: option.splits)

lemma lift_Inr: "lift v s = (Inr x, s') \<Longrightarrow> v = Inr x \<and> s' = s"
  by (simp add: lift_def)

lemma ret_Inr: "ret x s = (Inr y, s') \<Longrightarrow> y = x \<and> s' = s"
  by (simp add: ret_def)

lemma for_each_length:
  "for_each f xs s = (Inr ys, s') \<Longrightarrow> length ys = length xs"
  by (induction xs arbitrary: s ys) (auto split: prod.splits sum.splits)

lemma for_each_rel:
  assumes "for_each f xs s = (Inr ys, s')"
    and "\<And>x t y t'. x \<in> set xs \<Longrightarrow> f x t = (Inr y, t') \<Longrightarrow> R x y"
  shows "list_all2 R xs ys"
  using assms by (induction xs arbitrary: s ys) (auto split: prod.splits sum.splits)

lemma random_randint_range:
  assumes "random_randint w lo hi s = (Inr r, s')"
  shows "lo \<le> r \<and> r \<le> hi"
proof -
  from assms have le: "lo \<le> hi"
    and r: "r = lo + int (rand_below w (rng_pos s) mod nat (hi - lo + 1))"
    by (auto simp: random_randint_def split: if_splits)
  have "rand_below w (rng_pos s) mod nat (hi - lo + 1) < nat (hi - lo + 1)"
    using le by simp
  with r le show ?thesis by linarith
qed

lemma raise_Inr: "raise e s = (Inr y, s') \<Longrightarrow> False"
  by (simp add: raise_def)

lemma image_on_disk:
  "generate_prettymaps_image w q pr s = (Inr path, s') \<Longrightarrow> path \<in> files s'"
  by (auto simp: generate_prettymaps_image_def Let_def split: option.splits)

lemma poll_options_built:
  assumes "for_each (\<lambda>i. bind (lift (py_nth ns (i - 1))) (\<lambda>n.
             bind (lift (py_nth ads (i - 1))) (\<lambda>adr. ret (F n adr)))) [1..nb] s
           = (Inr opts, s')"
  shows "length opts = nat nb \<and>
     (\<forall>k<nat nb. k < length ns \<longrightarrow> k < length ads \<longrightarrow> opts ! k = F (ns ! k) (ads ! k))"
proof -
  let ?R = "\<lambda>i y. \<exists>n adr. py_nth ns (i - 1) = Inr n \<and> py_nth ads (i - 1) = Inr adr \<and> y = F n adr"
  have rel: "list_all2 ?R [1..nb] opts"
    by (rule for_each_rel [OF assms]) (auto elim!: bindE dest!: lift_Inr ret_Inr)
  then have len: "length opts = nat nb"
    by (auto dest: list_all2_lengthD)
  moreover have "opts ! k = F (ns ! k) (ads ! k)"
    if "k < nat nb" "k < length ns" "k < length ads" for k
  proof -
    have "?R ([1..nb] ! k) (opts ! k)"
      using list_all2_nthD [OF rel, of k] that(1) by simp
    moreover have "[1..nb] ! k = 1 + int k" using that(1) by (simp add: nth_upto)
    ultimately show ?thesis using that(2,3) by (auto simp: py_nth_def)
  qed
  ultimately show ?thesis by blast
qed

lemma prepare_plan:
  assumes "prepare w a s = (Inr p, s1)"
  shows "\<exists>nb. arg_nb_picks a = Some nb \<and> 2 \<le> nb \<and> nb \<le> 4 \<and>
     length (otm_places p) = nat nb \<and> length (otm_names p) = nat nb \<and>
     length (names p) = nat nb \<and> length (addresses p) = nat nb \<and>
     length (poll_options p) = nat nb \<and>
     otm_names p = map place_name (otm_places p) \<and>
     (\<forall>k<nat nb. poll_options p ! k
        = create_poll_option (otm_names p ! k) (addresses p ! k) MAX_POLL_OPTION_LENGTH) \<and>
     0 \<le> idx_pick p \<and> idx_pick p < nb \<and> map_path p \<in> files s1"
  using assms unfolding prepare_def
  apply (elim bindE)
  apply (drule py_int_Inr)+
  apply (elim conjE)
  apply (simp split: if_splits)
     apply (auto elim!: bindE dest!: raise_Inr lift_Inr ret_Inr poll_options_built)
             apply (auto dest!: for_each_length random_randint_range image_on_disk)
  done

section \<open>From the start of a run to the publishing lines\<close>

lemma startup_prepare:
  "startup w a s = (Inr p, s1) \<Longrightarrow> prepare w a s = (Inr p, s1)"
  by (auto simp: startup_def bind_def check_environment_def emit_def raise_def ret_def
      split: if_splits)

lemma run_publish:
  "startup w a (initial w) = (Inr p, s1) \<Longrightarrow> run w a = publish w p s1"
  by (simp add: run_def program_def bind_def)

lemma toot_fields:
  "in_reply_to_id (image_toot p m) = None" "toot_poll (image_toot p m) = None"
  "spoiler_text (image_toot p m) = None"
  "in_reply_to_id (poll_toot p img sh) = Some (toot_id img)"
  "toot_poll (poll_toot p img sh) = Some \<lparr>options = sh, expires_in = 3600 * nb_hours p,
      multiple = False, hide_totals = False\<rparr>"
  "spoiler_text (poll_toot p img sh) = None"
  "in_reply_to_id (answer_toot p pr ans) = Some (toot_id pr)"
  "toot_poll (answer_toot p pr ans) = None"
  "spoiler_text (answer_toot p pr ans) = Some ANSWER_TOOT_CW_TPL"
  "status (answer_toot p pr ans) = ANSWER_TOOT_TPL ans"
  by (simp_all add: image_toot_def poll_toot_def answer_toot_def)

section \<open>The concrete world, evaluated\<close>

lemma demo_posting_fields:
  "countries_file (demo_world_posting f)
     = Inr \<lparr>gtype = lit ''FeatureCollection'', features = [testland]\<rparr>"
  "unicode_upper (demo_world_posting f) = (\<lambda>c. [c])"
  "rand_below (demo_world_posting f) = (\<lambda>k. k)"
  "environ (demo_world_posting f) (lit ''MASTODON_INSTANCE'') \<noteq> None"
  "environ (demo_world_posting f) (lit ''MASTODON_ACCESS_TOKEN'') \<noteq> None"
  "environ (demo_world_posting f) (lit ''OPENTRIPMAP_API_KEY'') \<noteq> None"
  by (simp_all add: demo_world_def demo_world_posting_def lit_def)

lemma demo_posting_same: "demo_world_posting (status_post demo_world) = demo_world"
  by (simp add: demo_world_posting_def)

lemma demo_point_first:
  "rng_pos s = 0 \<Longrightarrow>
   generate_random_point (demo_world_posting f) (Suc (Suc (Suc d))) (geometry testland) s
     = (Inr (5, 5), s\<lparr>rng_pos := 6\<rparr>)"
  by (simp add: grp_step drawn_point_def testland_def demo_world_def demo_world_posting_def)

lemma demo_point_later:
  "3 \<le> rng_pos s \<Longrightarrow>
   generate_random_point (demo_world_posting f) (Suc d) (geometry testland) s
     = (Inr (5, 5), s\<lparr>rng_pos := rng_pos s + 2\<rparr>)"
  by (simp add: grp_step drawn_point_def testland_def demo_world_def demo_world_posting_def)

lemma demo_places:
  "places_api (demo_world_posting f) n pt radius = Inr (200, [place_a, place_b])"
  "rand_below (demo_world_posting f) k = k"
  "geom_type place_a = lit ''Point''" "geom_type place_b = lit ''Point''"
  by (simp_all add: demo_world_def demo_world_posting_def place_a_def place_b_def)

lemma demo_place_first:
  "rng_pos s = 0 \<Longrightarrow>
   get_otm_place (demo_world_posting f) (Suc (Suc (Suc (Suc d)))) (geometry testland) 50 3 50 s
     = (Inr place_a, s\<lparr>trace := trace s @ [PlacesGet (5, 5) 50000 3 50], rng_pos := 7\<rparr>)"
  by (simp add: demo_point_first random_choice_def demo_places Let_def numeral_2_eq_2 [symmetric])

lemma demo_place_second:
  "rng_pos s = 7 \<Longrightarrow>
   get_otm_place (demo_world_posting f) (Suc (Suc d)) (geometry testland) 50 3 50 s
     = (Inr place_b, s\<lparr>trace := trace s @ [PlacesGet (5, 5) 50000 3 50], rng_pos := 10\<rparr>)"
  by (simp add: demo_point_later random_choice_def demo_places Let_def numeral_2_eq_2 [symmetric])


lemma demo_limit: "recursion_limit (demo_world_posting f) = 1000"
  by (simp add: demo_world_def demo_world_posting_def)

lemma demo_place_first_limit:
  "rng_pos s = 0 \<Longrightarrow>
   get_otm_place (demo_world_posting f) 1000 (geometry testland) 50 3 50 s
     = (Inr place_a, s\<lparr>trace := trace s @ [PlacesGet (5, 5) 50000 3 50], rng_pos := 7\<rparr>)"
  using demo_place_first [of s f 996] by simp

lemma demo_place_second_limit:
  "rng_pos s = 7 \<Longrightarrow>
   get_otm_place (demo_world_posting f) 1000 (geometry testland) 50 3 50 s
     = (Inr place_b, s\<lparr>trace := trace s @ [PlacesGet (5, 5) 50000 3 50], rng_pos := 10\<rparr>)"
  using demo_place_second [of s f 998] by simp

lemma demo_ranges: "[0..1::int] = [0, 1]" "[1..2::int] = [1, 2]"
  by (simp_all add: upto.simps)

lemma demo_country:
  "pick_country (demo_world_posting f) (lit ''testland'') s
     = (Inr testland, s\<lparr>trace := trace s @ [FileOpen (lit ''world_countries.geojson'')]\<rparr>)"
proof -
  have "lit ''testland'' \<noteq> lit ''random''" by (simp add: lit_def)
  then show ?thesis
    by (simp add: pick_country_lookup demo_posting_fields upper_testland testland_def)
qed

lemma demo_resolve:
  "get_nominatim_address (demo_world_posting f) pl s
     = (Inr (lit ''Main Square, Town, Region, Testland'', demo_address),
        s\<lparr>trace := trace s @ [ReverseGet (coordinates pl)]\<rparr>)"
  by (simp add: get_nominatim_address_def demo_world_def demo_world_posting_def demo_address_def Let_def)

lemma demo_options:
  "create_poll_option (lit ''Place A'') demo_address MAX_POLL_OPTION_LENGTH
     = lit ''Place A, Town, Region''"
  "create_poll_option (lit ''Place B'') demo_address MAX_POLL_OPTION_LENGTH
     = lit ''Place B, Town, Region''"
  by (simp_all add: create_poll_option_def demo_address_def dict_get_def
      MAX_POLL_OPTION_LENGTH_def lit_def)

lemma demo_image:
  "generate_prettymaps_image (demo_world_posting f) q (lit ''default'') s
     = (Inr (lit ''prettymaps_20230101-120000_default.png''),
        s\<lparr>trace := trace s @ [Plot q (lit ''default'') (lit ''prettymaps_20230101-120000_default.png'')],
          files := insert (lit ''prettymaps_20230101-120000_default.png'') (files s)\<rparr>)"
  by (simp add: generate_prettymaps_image_def demo_world_def demo_world_posting_def Let_def lit_def)

lemma demo_disk: "disk (demo_world_posting f) = {}"
  by (simp add: demo_world_def demo_world_posting_def)

lemma demo_startup:
  "startup (demo_world_posting f) demo_args (initial (demo_world_posting f)) = (Inr demo_plan, demo_prepared)"
proof -
  have ne: "lit ''default'' \<noteq> lit ''random''" by (simp add: lit_def)
  have nm: "place_name place_a = lit ''Place A''" "place_name place_b = lit ''Place B''"
    "coordinates place_a = (1, 1)" "coordinates place_b = (2, 2)" "ADMIN testland = lit ''Testland''"
    by (simp_all add: place_a_def place_b_def testland_def)
  show ?thesis
    using ne
    by (simp add: startup_def check_environment_ok demo_posting_fields prepare_def bind_def
        py_int_def ret_def lift_def demo_args_def initial_def demo_country demo_limit
        demo_place_first_limit demo_place_second_limit demo_ranges demo_resolve demo_options demo_image nm
        random_randint_def py_nth_def demo_places demo_plan_def demo_prepared_def
        numeral_2_eq_2 [symmetric] demo_disk)
qed

lemma demo_startup_same:
  "startup demo_world demo_args (initial demo_world) = (Inr demo_plan, demo_prepared)"
  using demo_startup [of "status_post demo_world"] by (simp add: demo_posting_same)

lemma demo_mod: "(11::nat) mod Suc (Suc 0) = Suc 0"
  by (simp add: numeral_2_eq_2 [symmetric])

lemma demo_publish:
  "publish demo_world demo_plan demo_prepared
     = (Inr (),
        \<lparr>trace = trace demo_prepared @
           [MediaPost (lit ''prettymaps_20230101-120000_default.png'') True,
            StatusPost (image_toot demo_plan 1) True,
            FileRemove (lit ''prettymaps_20230101-120000_default.png''),
            StatusPost (poll_toot demo_plan \<lparr>toot_id = 142, acct = lit ''bot''\<rparr>
              [lit ''Place B, Town, Region'', lit ''Place A, Town, Region'']) True,
            StatusPost (answer_toot demo_plan \<lparr>toot_id = 21, acct = lit ''bot''\<rparr>
              (lit ''Place A, Town, Region'')) True],
         rng_pos = 13, files = {}\<rparr>)"
  by (simp add: publish_def bind_def mastodon_media_post_def mastodon_status_post_def
      os_remove_def random_sample_def lift_def ret_def Let_def py_nth_def
      demo_world_def demo_plan_def demo_prepared_def image_toot_def poll_toot_def
      answer_toot_def IMG_TOOT_TEMPLATE_def POLL_TOOT_TPL_def lit_def
      demo_mod)

lemma demo_published:
  "published demo_world demo_plan demo_prepared
     = [MediaPost (lit ''prettymaps_20230101-120000_default.png'') True,
        StatusPost (image_toot demo_plan 1) True,
        FileRemove (lit ''prettymaps_20230101-120000_default.png''),
        StatusPost (poll_toot demo_plan \<lparr>toot_id = 142, acct = lit ''bot''\<rparr>
          [lit ''Place B, Town, Region'', lit ''Place A, Town, Region'']) True,
        StatusPost (answer_toot demo_plan \<lparr>toot_id = 21, acct = lit ''bot''\<rparr>
          (lit ''Place A, Town, Region'')) True]"
  by (simp add: published_def demo_publish)

lemma demo_run:
  "fst (run demo_world demo_args) = Inr ()" "files (snd (run demo_world demo_args)) = {}"
  by (simp_all add: run_publish [OF demo_startup_same] demo_publish)


lemma demo_publish_refused:
  "publish (demo_world_posting refuse_replies) demo_plan demo_prepared
     = (Inl MastodonError,
        \<lparr>trace = trace demo_prepared @
           [MediaPost (lit ''prettymaps_20230101-120000_default.png'') True,
            StatusPost (image_toot demo_plan 1) True,
            FileRemove (lit ''prettymaps_20230101-120000_default.png''),
            StatusPost (poll_toot demo_plan \<lparr>toot_id = 7, acct = lit ''bot''\<rparr>
              [lit ''Place B, Town, Region'', lit ''Place A, Town, Region'']) False],
         rng_pos = 13, files = {}\<rparr>)"
  by (simp add: publish_def bind_def mastodon_media_post_def mastodon_status_post_def
      os_remove_def random_sample_def lift_def ret_def Let_def py_nth_def
      demo_world_def demo_world_posting_def refuse_replies_def demo_plan_def
      demo_prepared_def image_toot_def poll_toot_def
      answer_toot_def IMG_TOOT_TEMPLATE_def POLL_TOOT_TPL_def lit_def demo_mod)

lemma demo_run_refused:
  "fst (run (demo_world_posting refuse_replies) demo_args) = Inl MastodonError"
  "files (snd (run (demo_world_posting refuse_replies) demo_args)) = {}"
  by (simp_all add: run_publish [OF demo_startup] demo_publish_refused)

lemma demo_plan_fields:
  "map_path demo_plan = lit ''prettymaps_20230101-120000_default.png''"
  "poll_options demo_plan = [lit ''Place A, Town, Region'', lit ''Place B, Town, Region'']"
  "idx_pick demo_plan = 0"
  "names demo_plan = [lit ''Main Square, Town, Region, Testland'',
     lit ''Main Square, Town, Region, Testland'']"
  by (simp_all add: demo_plan_def)

section \<open>Properties of the publishing lines\<close>

lemma published_posts:
  assumes "publish w p s = (r, s2)" and "StatusPost t ok \<in> set (published w p s)"
  shows "(\<exists>m. t = image_toot p m) \<or>
     (\<exists>img. t = poll_toot p img (sample_loop w (poll_options p) (length (poll_options p))
        (length (poll_options p)) (rng_pos s))) \<or>
     (\<exists>pr answer. t = answer_toot p pr answer \<and>
        py_nth (poll_options p) (idx_pick p) = Inr answer)"
  using published_cases [OF assms(1)] assms(2) by auto

text \<open>
  C8. In a run that reaches the publishing lines with plan \<open>p\<close>, the events of
  publishing are: the media upload alone (it failed); or the upload and the failed
  image post; or the upload, the successful image post, next to it the removal of
  the image file, and after these at most two more posts, each a reply (the poll
  and the answer). In the last case the image file is not on disk at the end of
  the run, whatever the outcome of the poll post and of the answer post.
\<close>

theorem image_removed_before_poll:
  assumes "startup w a (initial w) = (Inr p, s1)"
  shows "trace (snd (run w a)) = trace s1 @ published w p s1 \<and>
     (published w p s1 = [MediaPost (map_path p) False] \<or>
      (\<exists>m. published w p s1
         = [MediaPost (map_path p) True, StatusPost (image_toot p m) False]) \<or>
      (\<exists>m rest. published w p s1
         = MediaPost (map_path p) True # StatusPost (image_toot p m) True
             # FileRemove (map_path p) # rest \<and>
          length rest \<le> 2 \<and>
          (\<forall>ev\<in>set rest. \<exists>t ok. ev = StatusPost t ok \<and> in_reply_to_id t \<noteq> None) \<and>
          files (snd (run w a)) = files s1 - {map_path p} \<and>
          map_path p \<notin> files (snd (run w a))))"
proof -
  obtain r s2 where pub: "publish w p s1 = (r, s2)" by (cases "publish w p s1")
  have run: "run w a = (r, s2)" using run_publish [OF assms] pub by simp
  from prepare_plan [OF startup_prepare [OF assms]] have disk: "map_path p \<in> files s1" by blast
  from published_cases [OF pub] disk show ?thesis
    unfolding run by (auto simp: toot_fields)
qed

theorem image_removed_before_poll_witness:
  "fst (run demo_world demo_args) = Inr () \<and>
   files (snd (run demo_world demo_args)) = {} \<and>
   fst (run (demo_world_posting refuse_replies) demo_args) = Inl MastodonError \<and>
   files (snd (run (demo_world_posting refuse_replies) demo_args)) = {} \<and>
   trace (snd (run (demo_world_posting refuse_replies) demo_args))
     = trace demo_prepared @
         [MediaPost (map_path demo_plan) True, StatusPost (image_toot demo_plan 1) True,
          FileRemove (map_path demo_plan),
          StatusPost (poll_toot demo_plan \<lparr>toot_id = 7, acct = lit ''bot''\<rparr>
            [lit ''Place B, Town, Region'', lit ''Place A, Town, Region'']) False]"
proof -
  have pub: "published (demo_world_posting refuse_replies) demo_plan demo_prepared
     = [MediaPost (map_path demo_plan) True, StatusPost (image_toot demo_plan 1) True,
        FileRemove (map_path demo_plan),
        StatusPost (poll_toot demo_plan \<lparr>toot_id = 7, acct = lit ''bot''\<rparr>
          [lit ''Place B, Town, Region'', lit ''Place A, Town, Region'']) False]"
    by (simp add: published_def demo_publish_refused demo_plan_fields)
  from image_removed_before_poll [OF demo_startup [of refuse_replies]]
  have "trace (snd (run (demo_world_posting refuse_replies) demo_args))
     = trace demo_prepared @ published (demo_world_posting refuse_replies) demo_plan demo_prepared"
    by (rule conjunct1)
  with pub demo_run demo_run_refused image_removed_before_poll [OF demo_startup_same]
  show ?thesis by simp
qed

text \<open>
  C3. In a run that reaches the publishing lines with plan \<open>p\<close>, every post that
  carries a poll carries a permutation of the generated options \<open>poll_options p\<close>:
  the same multiset, so every string, the correct answer's among them, occurs as
  often as in the generated list; a run that ends normally has made such a post.
  The sample of the whole of any list is a permutation of the list.
\<close>

theorem poll_options_shuffled:
  assumes "startup w a (initial w) = (Inr p, s1)"
  shows "trace (snd (run w a)) = trace s1 @ published w p s1 \<and>
     (\<forall>t ok pl. StatusPost t ok \<in> set (published w p s1) \<and> toot_poll t = Some pl \<longrightarrow>
        mset (options pl) = mset (poll_options p) \<and>
        (\<forall>x. count_list (options pl) x = count_list (poll_options p) x)) \<and>
     (fst (run w a) = Inr () \<longrightarrow>
        (\<exists>t pl. StatusPost t True \<in> set (published w p s1) \<and> toot_poll t = Some pl)) \<and>
     (\<forall>ys. fst (random_sample w xs (length xs) s) = Inr ys \<longrightarrow> mset ys = mset xs)"
proof -
  obtain r s2 where pub: "publish w p s1 = (r, s2)" by (cases "publish w p s1")
  have run: "run w a = (r, s2)" using run_publish [OF assms] pub by simp
  let ?sh = "sample_loop w (poll_options p) (length (poll_options p))
      (length (poll_options p)) (rng_pos s1)"
  have perm: "mset ?sh = mset (poll_options p)" by (rule sample_loop_perm)
  then have cnt: "count_list ?sh x = count_list (poll_options p) x" for x
    by (simp flip: count_mset)
  have tr: "trace (snd (run w a)) = trace s1 @ published w p s1"
    using published_cases [OF pub] by (simp add: run)
  have all: "\<forall>t ok pl. StatusPost t ok \<in> set (published w p s1) \<and> toot_poll t = Some pl \<longrightarrow>
        mset (options pl) = mset (poll_options p) \<and>
        (\<forall>x. count_list (options pl) x = count_list (poll_options p) x)"
    using published_cases [OF pub] perm cnt by (auto simp: toot_fields)
  have ex: "fst (run w a) = Inr () \<longrightarrow>
        (\<exists>t pl. StatusPost t True \<in> set (published w p s1) \<and> toot_poll t = Some pl)"
  proof
    assume "fst (run w a) = Inr ()"
    then have "publish w p s1 = (Inr (), s2)" using pub by (simp add: run)
    from published_success [OF this] obtain m img pr answer where
      "published w p s1 = [MediaPost (map_path p) True, StatusPost (image_toot p m) True,
          FileRemove (map_path p), StatusPost (poll_toot p img ?sh) True,
          StatusPost (answer_toot p pr answer) True]" by blast
    then have "StatusPost (poll_toot p img ?sh) True \<in> set (published w p s1)" by simp
    then show "\<exists>t pl. StatusPost t True \<in> set (published w p s1) \<and> toot_poll t = Some pl"
      using toot_fields(5) by blast
  qed
  have smp: "\<forall>ys. fst (random_sample w xs (length xs) s) = Inr ys \<longrightarrow> mset ys = mset xs"
    by (simp add: random_sample_all sample_loop_perm)
  from tr all ex smp show ?thesis by blast
qed

theorem poll_options_shuffled_witness:
  "StatusPost (poll_toot demo_plan \<lparr>toot_id = 142, acct = lit ''bot''\<rparr>
      [lit ''Place B, Town, Region'', lit ''Place A, Town, Region'']) True
     \<in> set (published demo_world demo_plan demo_prepared) \<and>
   mset [lit ''Place B, Town, Region'', lit ''Place A, Town, Region'']
     = mset (poll_options demo_plan) \<and>
   poll_options demo_plan = [lit ''Place A, Town, Region'', lit ''Place B, Town, Region'']"
proof -
  let ?t = "poll_toot demo_plan \<lparr>toot_id = 142, acct = lit ''bot''\<rparr>
      [lit ''Place B, Town, Region'', lit ''Place A, Town, Region'']"
  have m: "StatusPost ?t True \<in> set (published demo_world demo_plan demo_prepared)"
    by (simp add: demo_published)
  have p: "toot_poll ?t = Some \<lparr>options = [lit ''Place B, Town, Region'',
      lit ''Place A, Town, Region''], expires_in = 3600 * nb_hours demo_plan,
      multiple = False, hide_totals = False\<rparr>"
    by (simp add: toot_fields)
  from poll_options_shuffled [OF demo_startup_same, of "[]" "initial demo_world"] m p
  have "mset [lit ''Place B, Town, Region'', lit ''Place A, Town, Region'']
     = mset (poll_options demo_plan)"
    by (metis poll.select_convs(1))
  with m show ?thesis by (simp add: demo_plan_fields)
qed

text \<open>
  C10. In a run that reaches the publishing lines with plan \<open>p\<close>, the index of the
  correct pick is within the generated options, the option at that index is
  \<open>create_poll_option\<close> of the pick's place name and address (so truncated like any
  option), and every post with the content warning of the answer has the text
  \<open>The correct answer is : \<close> followed by exactly that option. The option is an
  element of the generated list and of the options of every poll posted; a run
  that ends normally has posted the answer.
\<close>

theorem answer_is_poll_option:
  assumes "startup w a (initial w) = (Inr p, s1)"
  shows "0 \<le> idx_pick p \<and> idx_pick p < int (length (poll_options p)) \<and>
     poll_options p ! nat (idx_pick p)
       = create_poll_option (otm_names p ! nat (idx_pick p)) (addresses p ! nat (idx_pick p))
           MAX_POLL_OPTION_LENGTH \<and>
     otm_names p ! nat (idx_pick p) = place_name (otm_places p ! nat (idx_pick p)) \<and>
     poll_options p ! nat (idx_pick p) \<in> set (poll_options p) \<and>
     trace (snd (run w a)) = trace s1 @ published w p s1 \<and>
     (\<forall>t ok. StatusPost t ok \<in> set (published w p s1) \<and> spoiler_text t \<noteq> None \<longrightarrow>
        status t = lit ''The correct answer is : '' @ poll_options p ! nat (idx_pick p)) \<and>
     (\<forall>t ok pl. StatusPost t ok \<in> set (published w p s1) \<and> toot_poll t = Some pl \<longrightarrow>
        poll_options p ! nat (idx_pick p) \<in> set (options pl)) \<and>
     (fst (run w a) = Inr () \<longrightarrow>
        (\<exists>t. StatusPost t True \<in> set (published w p s1) \<and>
           spoiler_text t = Some ANSWER_TOOT_CW_TPL))"
proof -
  obtain r s2 where pub: "publish w p s1 = (r, s2)" by (cases "publish w p s1")
  have run: "run w a = (r, s2)" using run_publish [OF assms] pub by simp
  from prepare_plan [OF startup_prepare [OF assms]] obtain nb where
    nb: "2 \<le> nb" "nb \<le> 4" and len: "length (otm_places p) = nat nb"
      "length (otm_names p) = nat nb" "length (addresses p) = nat nb"
      "length (poll_options p) = nat nb"
    and nm: "otm_names p = map place_name (otm_places p)"
    and opts: "\<forall>k<nat nb. poll_options p ! k
        = create_poll_option (otm_names p ! k) (addresses p ! k) MAX_POLL_OPTION_LENGTH"
    and idx: "0 \<le> idx_pick p" "idx_pick p < nb"
    by (elim exE conjE)
  let ?k = "nat (idx_pick p)"
  let ?ans = "poll_options p ! ?k"
  have k: "?k < nat nb" using idx by simp
  have in_range: "idx_pick p < int (length (poll_options p))" using idx len by simp
  have built: "?ans = create_poll_option (otm_names p ! ?k) (addresses p ! ?k)
      MAX_POLL_OPTION_LENGTH"
    using opts k by blast
  have name: "otm_names p ! ?k = place_name (otm_places p ! ?k)"
    using nm k len by simp
  have member: "?ans \<in> set (poll_options p)" using k len by simp
  have nth: "py_nth (poll_options p) (idx_pick p) = Inr ?ans"
    using idx in_range by (simp add: py_nth_def)
  let ?sh = "sample_loop w (poll_options p) (length (poll_options p))
      (length (poll_options p)) (rng_pos s1)"
  have "set ?sh = set (poll_options p)"
    using sample_loop_perm [of w "poll_options p" "rng_pos s1"] by (metis set_mset_mset)
  with member have shuffled: "?ans \<in> set ?sh" by simp
  have tr: "trace (snd (run w a)) = trace s1 @ published w p s1"
    using published_cases [OF pub] by (simp add: run)
  have answer: "\<forall>t ok. StatusPost t ok \<in> set (published w p s1) \<and> spoiler_text t \<noteq> None \<longrightarrow>
        status t = lit ''The correct answer is : '' @ ?ans"
  proof (intro allI impI)
    fix t ok
    assume h: "StatusPost t ok \<in> set (published w p s1) \<and> spoiler_text t \<noteq> None"
    from published_posts [OF pub] h
    have "(\<exists>m. t = image_toot p m) \<or> (\<exists>img. t = poll_toot p img ?sh) \<or>
       (\<exists>pr answer. t = answer_toot p pr answer \<and>
          py_nth (poll_options p) (idx_pick p) = Inr answer)" by blast
    with h nth show "status t = lit ''The correct answer is : '' @ ?ans"
      by (auto simp: toot_fields ANSWER_TOOT_TPL_def)
  qed
  have polled: "\<forall>t ok pl. StatusPost t ok \<in> set (published w p s1) \<and> toot_poll t = Some pl \<longrightarrow>
        ?ans \<in> set (options pl)"
  proof (intro allI impI)
    fix t ok pl
    assume h: "StatusPost t ok \<in> set (published w p s1) \<and> toot_poll t = Some pl"
    from published_posts [OF pub] h
    have "(\<exists>m. t = image_toot p m) \<or> (\<exists>img. t = poll_toot p img ?sh) \<or>
       (\<exists>pr answer. t = answer_toot p pr answer \<and>
          py_nth (poll_options p) (idx_pick p) = Inr answer)" by blast
    with h shuffled show "?ans \<in> set (options pl)"
      by (auto simp: toot_fields)
  qed
  have posted: "fst (run w a) = Inr () \<longrightarrow>
        (\<exists>t. StatusPost t True \<in> set (published w p s1) \<and>
           spoiler_text t = Some ANSWER_TOOT_CW_TPL)"
  proof
    assume "fst (run w a) = Inr ()"
    then have "publish w p s1 = (Inr (), s2)" using pub by (simp add: run)
    from published_success [OF this] obtain m img pr answer where
      "published w p s1 = [MediaPost (map_path p) True, StatusPost (image_toot p m) True,
          FileRemove (map_path p), StatusPost (poll_toot p img ?sh) True,
          StatusPost (answer_toot p pr answer) True]" by blast
    then have "StatusPost (answer_toot p pr answer) True \<in> set (published w p s1)" by simp
    then show "\<exists>t. StatusPost t True \<in> set (published w p s1) \<and>
           spoiler_text t = Some ANSWER_TOOT_CW_TPL"
      using toot_fields(9) by blast
  qed
  show ?thesis
    by (intro conjI) (fact idx(1) in_range built name member tr answer polled posted)+
qed

theorem answer_is_poll_option_witness:
  "StatusPost (answer_toot demo_plan \<lparr>toot_id = 21, acct = lit ''bot''\<rparr>
      (lit ''Place A, Town, Region'')) True
     \<in> set (published demo_world demo_plan demo_prepared) \<and>
   status (answer_toot demo_plan \<lparr>toot_id = 21, acct = lit ''bot''\<rparr>
      (lit ''Place A, Town, Region''))
     = lit ''The correct answer is : '' @ lit ''Place A, Town, Region'' \<and>
   poll_options demo_plan ! nat (idx_pick demo_plan) = lit ''Place A, Town, Region'' \<and>
   names demo_plan ! nat (idx_pick demo_plan) = lit ''Main Square, Town, Region, Testland''"
proof -
  let ?t = "answer_toot demo_plan \<lparr>toot_id = 21, acct = lit ''bot''\<rparr>
      (lit ''Place A, Town, Region'')"
  have m: "StatusPost ?t True \<in> set (published demo_world demo_plan demo_prepared)"
    by (simp add: demo_published)
  have sp: "spoiler_text ?t \<noteq> None" by (simp add: toot_fields)
  have i: "poll_options demo_plan ! nat (idx_pick demo_plan) = lit ''Place A, Town, Region''"
    "names demo_plan ! nat (idx_pick demo_plan) = lit ''Main Square, Town, Region, Testland''"
    by (simp_all add: demo_plan_fields)
  from answer_is_poll_option [OF demo_startup_same] m sp
  have "status ?t = lit ''The correct answer is : ''
      @ poll_options demo_plan ! nat (idx_pick demo_plan)"
    by blast
  with m i show ?thesis by simp
qed

end
